theory Spec2Isabelle
  imports Main "HOL-Library.Product_Lexorder"
begin

section \<open>Python strings and lists\<close>

text \<open>
  A Python \<open>str\<close> is modelled as a \<open>string\<close> whose characters are code points below 256,
  so \<open>length\<close> is Python's \<open>len\<close>. \<open>isspace\<close> lists the code points below 256 for which
  \<open>str.isspace\<close> holds; they are also what \<open>\s\<close> matches in a \<open>str\<close> pattern.
\<close>

definition isspace :: "char \<Rightarrow> bool" where
  "isspace c = (c \<in> set [CHR 0x09, CHR 0x0A, CHR 0x0B, CHR 0x0C, CHR 0x0D, CHR 0x1C,
                           CHR 0x1D, CHR 0x1E, CHR 0x1F, CHR 0x20, CHR 0x85, CHR 0xA0])"

text \<open>\<open>s.split()\<close>: the maximal runs of non-whitespace, in order. \<open>word\<close> is the run being read.\<close>

fun split_ws :: "string \<Rightarrow> string \<Rightarrow> string list" where
  "split_ws [] word = (if word = [] then [] else [word])"
| "split_ws (c # cs) word =
     (if isspace c then (if word = [] then split_ws cs [] else word # split_ws cs [])
      else split_ws cs (word @ [c]))"

definition str_split :: "string \<Rightarrow> string list" where
  "str_split s = split_ws s []"

text \<open>\<open>s.split(sep)\<close> for a one-character separator: empty fields are kept.\<close>

fun split_on :: "char \<Rightarrow> string \<Rightarrow> string \<Rightarrow> string list" where
  "split_on sep [] word = [word]"
| "split_on sep (c # cs) word =
     (if c = sep then word # split_on sep cs [] else split_on sep cs (word @ [c]))"

definition str_split_sep :: "string \<Rightarrow> char \<Rightarrow> string list" where
  "str_split_sep s sep = split_on sep s []"

definition rstrip :: "string \<Rightarrow> char \<Rightarrow> string" where
  "rstrip s c = rev (dropWhile (\<lambda>x. x = c) (rev s))"

definition endswith :: "string \<Rightarrow> string \<Rightarrow> bool" where
  "endswith s suffix = (take (length suffix) (rev s) = rev suffix)"

text \<open>\<open>s.endswith((a, b, c))\<close> with a tuple of suffixes.\<close>

definition endswith_any :: "string \<Rightarrow> string list \<Rightarrow> bool" where
  "endswith_any s suffixes = list_ex (endswith s) suffixes"

text \<open>\<open>s.replace(c, '')\<close> for a one-character \<open>c\<close>.\<close>

definition remove_char :: "string \<Rightarrow> char \<Rightarrow> string" where
  "remove_char s c = filter (\<lambda>x. x \<noteq> c) s"

text \<open>\<open>str(n)\<close> for an integer.\<close>

fun str_nat :: "nat \<Rightarrow> string" where
  "str_nat n = (if n < 10 then [''0123456789'' ! n]
                else str_nat (n div 10) @ [''0123456789'' ! (n mod 10)])"

declare str_nat.simps [simp del]

definition str_int :: "int \<Rightarrow> string" where
  "str_int i = (if i < 0 then CHR ''-'' # str_nat (nat (- i)) else str_nat (nat i))"

text \<open>
  \<open>repr(s)\<close> of a \<open>str\<close>: single quotes unless the string holds a single quote and no double
  quote; the quote and the backslash are escaped, control and unprintable code points are
  written \<open>\t\<close>, \<open>\n\<close>, \<open>\r\<close> or \<open>\xhh\<close>.
\<close>

definition hex2 :: "nat \<Rightarrow> string" where
  "hex2 n = [''0123456789abcdef'' ! (n div 16), ''0123456789abcdef'' ! (n mod 16)]"

definition repr_char :: "char \<Rightarrow> char \<Rightarrow> string" where
  "repr_char quote c =
     (let n = (of_char c :: nat) in
      if c = quote \<or> c = CHR 0x5C then [CHR 0x5C, c]
      else if c = CHR 0x09 then [CHR 0x5C, CHR ''t'']
      else if c = CHR 0x0A then [CHR 0x5C, CHR ''n'']
      else if c = CHR 0x0D then [CHR 0x5C, CHR ''r'']
      else if n < 32 \<or> n = 127 then [CHR 0x5C, CHR ''x''] @ hex2 n
      else if n < 127 then [c]
      else if n \<le> 160 \<or> n = 173 then [CHR 0x5C, CHR ''x''] @ hex2 n
      else [c])"

definition repr :: "string \<Rightarrow> string" where
  "repr s =
     (let quote = (if CHR 0x27 \<in> set s \<and> CHR 0x22 \<notin> set s then CHR 0x22 else CHR 0x27)
      in quote # concat (map (repr_char quote) s) @ [quote])"

section \<open>Exceptions\<close>

text \<open>
  An exception raised inside a tool's \<open>try\<close> block, by the \<open>except\<close> clause that catches it:
  \<open>httpx.RequestError\<close>, then \<open>ValueError\<close>, then any other instance of \<open>Exception\<close>.
  \<open>BaseExceptionOnly\<close> is an exception that is not an instance of \<open>Exception\<close>
  (\<open>asyncio.CancelledError\<close> at the \<open>await\<close>, \<open>SystemExit\<close>, \<open>KeyboardInterrupt\<close>): no clause
  catches it. The string is \<open>str(e)\<close>.
\<close>

datatype exn =
    RequestError string
  | ValueError string
  | OtherException string
  | BaseExceptionOnly string

text \<open>\<open>xs[i]\<close> for \<open>i \<ge> 0\<close>; an \<open>IndexError\<close> is caught by \<open>except Exception\<close>.\<close>

definition getitem :: "'a list \<Rightarrow> nat \<Rightarrow> exn + 'a" where
  "getitem xs i = (if i < length xs then Inr (xs ! i)
                   else Inl (OtherException ''list index out of range''))"

definition bind_exn :: "exn + 'a \<Rightarrow> ('a \<Rightarrow> exn + 'b) \<Rightarrow> exn + 'b" where
  "bind_exn m f = (case m of Inl e \<Rightarrow> Inl e | Inr x \<Rightarrow> f x)"

text \<open>\<open>xs[0:stop]\<close>: a negative \<open>stop\<close> counts from the end.\<close>

definition slice_to :: "'a list \<Rightarrow> int \<Rightarrow> 'a list" where
  "slice_to xs stop = (if stop < 0 then take (nat (int (length xs) + stop)) xs
                       else take (nat stop) xs)"

section \<open>Clock times\<close>

text \<open>
  A \<open>datetime.time\<close> with seconds zero is the pair (hour, minute); Python compares times as
  these tuples, which is the lexicographic order on pairs.
\<close>

type_synonym time = "nat \<times> nat"

definition is_digit :: "char \<Rightarrow> bool" where
  "is_digit c = (c \<in> set ''0123456789'')"

definition digit_val :: "char \<Rightarrow> nat" where
  "digit_val c = length (takeWhile (\<lambda>d. d \<noteq> c) ''0123456789'')"

definition int_of_digits :: "string \<Rightarrow> nat" where
  "int_of_digits ds = foldl (\<lambda>n c. 10 * n + digit_val c) 0 ds"

text \<open>The directive \<open>%I\<close> is the pattern \<open>1[0-2]|0[1-9]|[1-9]\<close>, \<open>%M\<close> is \<open>[0-5]\d|\d\<close>.\<close>

definition match_I :: "string \<Rightarrow> bool" where
  "match_I h = (case h of
       [a] \<Rightarrow> a \<in> set ''123456789''
     | [a, b] \<Rightarrow> (a = CHR ''1'' \<and> b \<in> set ''012'') \<or> (a = CHR ''0'' \<and> b \<in> set ''123456789'')
     | _ \<Rightarrow> False)"

definition match_M :: "string \<Rightarrow> bool" where
  "match_M m = (case m of
       [a] \<Rightarrow> is_digit a
     | [a, b] \<Rightarrow> a \<in> set ''012345'' \<and> is_digit b
     | _ \<Rightarrow> False)"

text \<open>
  The match of \<open>%I:%M %p\<close> at the start of the string, as \<open>re.match\<close> finds it (ignoring
  case, a blank of the format matching \<open>\s+\<close>): the hour field, the minute, whether the
  marker is PM, and the text after the match.
\<close>

definition strptime_match :: "string \<Rightarrow> (nat \<times> nat \<times> bool \<times> string) option" where
  "strptime_match data_string =
     (let h = takeWhile is_digit data_string;
          after_h = dropWhile is_digit data_string
      in case after_h of
           [] \<Rightarrow> None
         | colon # after_colon \<Rightarrow>
             let m = takeWhile is_digit after_colon;
                 after_m = dropWhile is_digit after_colon;
                 after_ws = dropWhile isspace after_m
             in (case after_ws of
                   p1 # p2 # rest \<Rightarrow>
                     if colon = CHR '':'' \<and> match_I h \<and> match_M m \<and> after_ws \<noteq> after_m
                        \<and> p1 \<in> set ''aApP'' \<and> p2 \<in> set ''mM''
                     then Some (int_of_digits h, int_of_digits m, p1 \<in> set ''pP'', rest)
                     else None
                 | _ \<Rightarrow> None))"

text \<open>\<open>datetime.strptime(s, '%I:%M %p').time()\<close>; its failures are \<open>ValueError\<close>s.\<close>

definition strptime :: "string \<Rightarrow> exn + time" where
  "strptime data_string =
     (case strptime_match data_string of
        None \<Rightarrow> Inl (ValueError (''time data '' @ repr data_string
                       @ '' does not match format '' @ repr ''%I:%M %p''))
      | Some (hour, minute, pm, rest) \<Rightarrow>
          if rest \<noteq> [] then Inl (ValueError (''unconverted data remains: '' @ rest))
          else if pm then Inr (if hour \<noteq> 12 then hour + 12 else hour, minute)
          else Inr (if hour = 12 then 0 else hour, minute))"

section \<open>Flight records and formatting\<close>

text \<open>
  A flight as the backend delivers it (a dict made from the \<open>Flight\<close> dataclass); \<open>price\<close> is
  \<open>None\<close> when the dict holds no price string.
\<close>

record flight =
  is_best :: bool
  name :: string
  departure :: string
  arrival :: string
  duration :: string
  stops :: int
  price :: "string option"

definition month_map :: "(string \<times> string) list" where
  "month_map = [(''Jan'', ''January''), (''Feb'', ''February''), (''Mar'', ''March''),
                (''Apr'', ''April''), (''May'', ''May''), (''Jun'', ''June''),
                (''Jul'', ''July''), (''Aug'', ''August''), (''Sep'', ''September''),
                (''Oct'', ''October''), (''Nov'', ''November''), (''Dec'', ''December'')]"

definition day_map :: "(string \<times> string) list" where
  "day_map = [(''Mon'', ''Monday''), (''Tue'', ''Tuesday''), (''Wed'', ''Wednesday''),
              (''Thu'', ''Thursday''), (''Fri'', ''Friday''), (''Sat'', ''Saturday''),
              (''Sun'', ''Sunday'')]"

text \<open>\<open>d.get(k, default)\<close>.\<close>

definition dict_get :: "('k \<times> 'v) list \<Rightarrow> 'k \<Rightarrow> 'v \<Rightarrow> 'v" where
  "dict_get d k dflt = (case map_of d k of None \<Rightarrow> dflt | Some v \<Rightarrow> v)"

definition day_suffix :: "string \<Rightarrow> string" where
  "day_suffix day =
     (if \<not> endswith_any day [''1'', ''2'', ''3''] \<or> endswith_any day [''11'', ''12'', ''13'']
      then ''th''
      else if endswith day ''1'' then ''st''
      else if endswith day ''2'' then ''nd''
      else if endswith day ''3'' then ''rd''
      else ''th'')"

definition expand_date :: "string \<Rightarrow> exn + string" where
  "expand_date date_str =
     (let parts = str_split date_str in
      bind_exn (getitem parts 0) (\<lambda>p0.
      bind_exn (getitem parts 1) (\<lambda>p1.
      bind_exn (getitem parts 3) (\<lambda>p3.
      bind_exn (getitem parts 4) (\<lambda>month_abbr.
      bind_exn (getitem parts 5) (\<lambda>day.
        let time = p0 @ '' '' @ p1;
            day_abbr = rstrip p3 CHR '','';
            full_day = dict_get day_map day_abbr day_abbr;
            full_month = dict_get month_map month_abbr month_abbr;
            day_with_suffix = day @ day_suffix day
        in Inr (time @ '' on '' @ full_day @ '', '' @ full_month @ '' '' @ day_with_suffix)))))))"

definition duration_formatted :: "string \<Rightarrow> string" where
  "duration_formatted duration_str =
     (let duration_parts = str_split duration_str in
      if length duration_parts = 4
      then duration_parts ! 0 @ '' hours and '' @ duration_parts ! 2 @ '' minutes''
      else duration_str)"

definition stops_text :: "int \<Rightarrow> string" where
  "stops_text n = (if n > 0 then str_int n @ '' stop'' @ (if n \<noteq> 1 then ''s'' else '''')
                   else ''non-stop'')"

definition best_flight_qualifier :: "flight \<Rightarrow> string" where
  "best_flight_qualifier flight_data =
     (if is_best flight_data then ''considered one of the best options by Google Flights''
      else ''an available option'')"

definition format_flight_info :: "flight \<Rightarrow> string \<Rightarrow> string \<Rightarrow> exn + string" where
  "format_flight_info flight_data origin_airport destination_airport =
     bind_exn (expand_date (departure flight_data)) (\<lambda>dep.
     bind_exn (expand_date (arrival flight_data)) (\<lambda>arr.
       Inr (''This flight departs at '' @ dep @ '' from '' @ origin_airport @ '', local time, ''
            @ ''and arrives at '' @ arr @ '' in '' @ destination_airport @ '', local time. ''
            @ ''The flight is operated by '' @ name flight_data
            @ '' and has a duration of '' @ duration_formatted (duration flight_data) @ '' ''
            @ ''with '' @ stops_text (stops flight_data) @ '' in between. ''
            @ ''And it's price is ''
            @ (case price flight_data of None \<Rightarrow> ''None'' | Some p \<Rightarrow> p)
            @ '' and is '' @ best_flight_qualifier flight_data @ ''!'')))"

section \<open>The backend and the tools' arguments\<close>

text \<open>
  The arguments the four tools share. The backend stands for the part of the \<open>try\<close> block
  from \<open>FlightData(...)\<close> to \<open>asdict(result)\<close>, with the awaited call of \<open>get_flights\<close> in a
  thread: it raises (also an exception that is not an instance of \<open>Exception\<close>, as when the
  \<open>await\<close> is cancelled), or it delivers the result dict, whose \<open>flights\<close> is \<open>None\<close> when the
  dict has no such key.
\<close>

record flight_args =
  origin :: string
  destination :: string
  departure_date :: string
  trip_type :: string
  seat :: string
  adults :: int
  children :: int
  infants_in_seat :: int
  infants_on_lap :: int

record result =
  current_price :: string
  flights :: "flight list option"

type_synonym backend = "flight_args \<Rightarrow> exn + result"

text \<open>
  The three \<open>except\<close> clauses that close every tool's \<open>try\<close> block. A tool's call ends in
  \<open>Inr\<close> of the list it returns, or in \<open>Inl\<close> of the exception that propagates to its caller.
\<close>

fun except_clauses :: "exn \<Rightarrow> exn + string list" where
  "except_clauses (RequestError d) =
     Inr [''Unable to connect to the flight search service. Please try again later.'']"
| "except_clauses (ValueError d) = Inr [''Invalid data received: '' @ d]"
| "except_clauses (OtherException d) =
     Inr [''An unexpected error occurred while searching for flights: '' @ d]"
| "except_clauses (BaseExceptionOnly d) = Inl (BaseExceptionOnly d)"

text \<open>\<open>for flight in top_n_flights: flight_info.append(format_flight_info(...))\<close>.\<close>

fun format_loop :: "flight list \<Rightarrow> string \<Rightarrow> string \<Rightarrow> string list \<Rightarrow> exn + string list" where
  "format_loop [] origin_airport destination_airport flight_info = Inr flight_info"
| "format_loop (flight # rest) origin_airport destination_airport flight_info =
     (case format_flight_info flight origin_airport destination_airport of
        Inl e \<Rightarrow> Inl e
      | Inr line \<Rightarrow> format_loop rest origin_airport destination_airport (flight_info @ [line]))"

section \<open>get_general_flights_info\<close>

definition get_general_flights_info_try :: "backend \<Rightarrow> flight_args \<Rightarrow> int \<Rightarrow> exn + string list" where
  "get_general_flights_info_try backend a n_flights =
     bind_exn (backend a) (\<lambda>result.
       case flights result of
         None \<Rightarrow> Inr [''No flight data available for the specified route and dates.'']
       | Some all_flights \<Rightarrow>
           if all_flights = []
           then Inr [''No flights found for the specified route and dates.'']
           else
             let top_n_flights = slice_to all_flights (min n_flights (int (length all_flights)))
             in bind_exn (format_loop top_n_flights (origin a) (destination a) [])
                  (\<lambda>flight_info.
                     Inr ((''The current overall flight prices for this route and time are: ''
                           @ current_price result @ ''.'') # flight_info)))"

definition get_general_flights_info ::
  "backend \<Rightarrow> flight_args \<Rightarrow> int \<Rightarrow> exn + string list" where
  "get_general_flights_info backend a n_flights =
     (if length (origin a) \<noteq> 3 \<or> length (destination a) \<noteq> 3
      then Inr [''Origin and destination must be 3 characters.'']
      else if length (departure_date a) \<noteq> 10 \<or> departure_date a ! 4 \<noteq> CHR ''-''
              \<or> departure_date a ! 7 \<noteq> CHR ''-''
      then Inr [''Departure date must be in YYYY-MM-DD format.'']
      else if trip_type a \<noteq> ''one-way'' \<and> trip_type a \<noteq> ''round-trip''
      then Inr [''Trip type must be either 'one-way' or 'round-trip'.'']
      else if seat a \<noteq> ''economy'' \<and> seat a \<noteq> ''premium-economy'' \<and> seat a \<noteq> ''business''
              \<and> seat a \<noteq> ''first''
      then Inr [''Seat type must be either 'economy', 'premium-economy', 'business', or 'first'.'']
      else case get_general_flights_info_try backend a n_flights of
             Inl e \<Rightarrow> except_clauses e
           | Inr output \<Rightarrow> Inr output)"

section \<open>get_cheapest_flights\<close>

text \<open>
  Python's float values: the finite ones (a linearly ordered type \<open>'r\<close>, the doubles up to
  \<open>==\<close>), the two infinities and NaN. \<open>float_lt\<close> is \<open><\<close> on floats: it is false whenever
  an argument is NaN.
\<close>

datatype 'r pyfloat = NaN | NegInf | Finite 'r | PosInf

fun float_lt :: "'r::linorder pyfloat \<Rightarrow> 'r pyfloat \<Rightarrow> bool" where
  "float_lt NaN y = False"
| "float_lt x NaN = False"
| "float_lt x NegInf = False"
| "float_lt NegInf y = True"
| "float_lt PosInf y = False"
| "float_lt (Finite a) PosInf = True"
| "float_lt (Finite a) (Finite b) = (a < b)"

text \<open>
  Python's \<open>float\<close> is a parameter: \<open>py_float s\<close> is \<open>None\<close> when \<open>float(s)\<close> raises
  \<open>ValueError\<close>, else the value. \<open>float('inf')\<close> is \<open>PosInf\<close>.
\<close>

definition get_price_value :: "(string \<Rightarrow> 'r pyfloat option) \<Rightarrow> flight \<Rightarrow> 'r pyfloat" where
  "get_price_value py_float flight =
     (case price flight of
        None \<Rightarrow> PosInf
      | Some price_str \<Rightarrow>
          if price_str = [] \<or> price_str = ''Price unavailable'' then PosInf
          else (case py_float (remove_char (remove_char price_str CHR ''$'') CHR '','') of
                  None \<Rightarrow> PosInf
                | Some v \<Rightarrow> v))"

text \<open>
  Python's \<open>sorted(xs, key=f)\<close> is the parameter \<open>py_sorted\<close>: what it returns when a key is
  NaN depends on the interpreter's sorting algorithm and is left open here.
\<close>

definition get_cheapest_flights_try ::
  "(string \<Rightarrow> 'r pyfloat option) \<Rightarrow> ((flight \<Rightarrow> 'r pyfloat) \<Rightarrow> flight list \<Rightarrow> flight list)
     \<Rightarrow> backend \<Rightarrow> flight_args \<Rightarrow> exn + string list" where
  "get_cheapest_flights_try py_float py_sorted backend a =
     bind_exn (backend a) (\<lambda>result.
       case flights result of
         None \<Rightarrow> Inr [''No flight data available for the specified route and dates.'']
       | Some all_flights \<Rightarrow>
           if all_flights = []
           then Inr [''No flights found for the specified route and dates.'']
           else
             let price_sorted_flights = py_sorted (get_price_value py_float) all_flights;
                 top_n_flights =
                   slice_to price_sorted_flights (min 30 (int (length price_sorted_flights)))
             in bind_exn (format_loop top_n_flights (origin a) (destination a) [])
                  (\<lambda>flight_info.
                     Inr (''Here are the cheapest flights for this route and time: ''
                          # flight_info)))"

definition get_cheapest_flights ::
  "(string \<Rightarrow> 'r pyfloat option) \<Rightarrow> ((flight \<Rightarrow> 'r pyfloat) \<Rightarrow> flight list \<Rightarrow> flight list)
     \<Rightarrow> backend \<Rightarrow> flight_args \<Rightarrow> exn + string list" where
  "get_cheapest_flights py_float py_sorted backend a =
     (if length (origin a) \<noteq> 3 \<or> length (destination a) \<noteq> 3
      then Inr [''Origin and destination must be 3 characters.'']
      else if length (departure_date a) \<noteq> 10 \<or> departure_date a ! 4 \<noteq> CHR ''-''
              \<or> departure_date a ! 7 \<noteq> CHR ''-''
      then Inr [''Departure date must be in YYYY-MM-DD format.'']
      else if trip_type a \<noteq> ''one-way'' \<and> trip_type a \<noteq> ''round-trip''
      then Inr [''Trip type must be either 'one-way' or 'round-trip'.'']
      else if seat a \<noteq> ''economy'' \<and> seat a \<noteq> ''premium-economy'' \<and> seat a \<noteq> ''business''
              \<and> seat a \<noteq> ''first''
      then Inr [''Seat type must be either 'economy', 'premium-economy', 'business', or 'first'.'']
      else case get_cheapest_flights_try py_float py_sorted backend a of
             Inl e \<Rightarrow> except_clauses e
           | Inr output \<Rightarrow> Inr output)"

section \<open>get_best_flights\<close>

text \<open>\<open>for flight in all_flights: if flight['is_best']: best_flights.append(flight)\<close>.\<close>

fun best_flights_loop :: "flight list \<Rightarrow> flight list \<Rightarrow> flight list" where
  "best_flights_loop [] best_flights = best_flights"
| "best_flights_loop (flight # rest) best_flights =
     best_flights_loop rest (if is_best flight then best_flights @ [flight] else best_flights)"

definition get_best_flights_try :: "backend \<Rightarrow> flight_args \<Rightarrow> exn + string list" where
  "get_best_flights_try backend a =
     bind_exn (backend a) (\<lambda>result.
       case flights result of
         None \<Rightarrow> Inr [''No flight data available for the specified route and dates.'']
       | Some all_flights \<Rightarrow>
           if all_flights = []
           then Inr [''No flights found for the specified route and dates.'']
           else
             let best_flights = best_flights_loop all_flights []
             in if best_flights = []
                then Inr [''No best flights found for the specified route and dates.'']
                else
                  let top_n_flights =
                        slice_to best_flights (min 30 (int (length best_flights)))
                  in bind_exn (format_loop top_n_flights (origin a) (destination a) [])
                       (\<lambda>flight_info.
                          Inr (''Here are the best flights for this route and time: ''
                               # flight_info)))"

definition get_best_flights :: "backend \<Rightarrow> flight_args \<Rightarrow> exn + string list" where
  "get_best_flights backend a =
     (if length (origin a) \<noteq> 3 \<or> length (destination a) \<noteq> 3
      then Inr [''Origin and destination must be 3 characters.'']
      else if length (departure_date a) \<noteq> 10 \<or> departure_date a ! 4 \<noteq> CHR ''-''
              \<or> departure_date a ! 7 \<noteq> CHR ''-''
      then Inr [''Departure date must be in YYYY-MM-DD format.'']
      else if trip_type a \<noteq> ''one-way'' \<and> trip_type a \<noteq> ''round-trip''
      then Inr [''Trip type must be either 'one-way' or 'round-trip'.'']
      else if seat a \<noteq> ''economy'' \<and> seat a \<noteq> ''premium-economy'' \<and> seat a \<noteq> ''business''
              \<and> seat a \<noteq> ''first''
      then Inr [''Seat type must be either 'economy', 'premium-economy', 'business', or 'first'.'']
      else case get_best_flights_try backend a of
             Inl e \<Rightarrow> except_clauses e
           | Inr output \<Rightarrow> Inr output)"

section \<open>get_time_filtered_flights\<close>

text \<open>The clock time of a flight: the first two fields of \<open>departure.split(" ")\<close>, parsed.\<close>

definition flight_time :: "flight \<Rightarrow> exn + time" where
  "flight_time flight =
     (let parts = str_split_sep (departure flight) CHR '' '' in
      bind_exn (getitem parts 0) (\<lambda>p0.
      bind_exn (getitem parts 1) (\<lambda>p1.
        strptime (p0 @ '' '' @ p1))))"

fun valid_flights_loop :: "string \<Rightarrow> time \<Rightarrow> flight list \<Rightarrow> flight list \<Rightarrow> exn + flight list" where
  "valid_flights_loop state target_time [] valid_flights = Inr valid_flights"
| "valid_flights_loop state target_time (flight # rest) valid_flights =
     (case flight_time flight of
        Inl e \<Rightarrow> Inl e
      | Inr ft \<Rightarrow>
          valid_flights_loop state target_time rest
            (if state = ''before''
             then (if ft < target_time then valid_flights @ [flight] else valid_flights)
             else if state = ''after''
             then (if ft \<ge> target_time then valid_flights @ [flight] else valid_flights)
             else valid_flights))"

definition get_time_filtered_flights_try ::
  "backend \<Rightarrow> string \<Rightarrow> string \<Rightarrow> flight_args \<Rightarrow> exn + string list" where
  "get_time_filtered_flights_try backend state target_time_str a =
     (case strptime target_time_str of
        Inl (ValueError d) \<Rightarrow>
          Inr [''Invalid time format. Please use HH:MM AM/PM format (e.g., '7:00 PM').'']
      | Inl e \<Rightarrow> Inl e
      | Inr target_time \<Rightarrow>
          bind_exn (backend a) (\<lambda>result.
            case flights result of
              None \<Rightarrow> Inr [''No flight data available for the specified route and dates.'']
            | Some all_flights \<Rightarrow>
                if all_flights = []
                then Inr [''No flights found for the specified route and dates.'']
                else
                  bind_exn (valid_flights_loop state target_time all_flights [])
                    (\<lambda>valid_flights.
                       if valid_flights = []
                       then Inr [''No flights found '' @ state @ '' '' @ target_time_str
                                 @ '' for the specified route and dates.'']
                       else
                         let top_n_flights =
                               slice_to valid_flights (min 30 (int (length valid_flights)))
                         in bind_exn (format_loop top_n_flights (origin a) (destination a) [])
                              (\<lambda>flight_info.
                                 Inr ((''Here are the time-filtered flights ''
                                       @ (if state = ''before'' then ''before''
                                          else ''on or after'')
                                       @ '' '' @ target_time_str @ '': '') # flight_info)))))"

definition get_time_filtered_flights ::
  "backend \<Rightarrow> string \<Rightarrow> string \<Rightarrow> flight_args \<Rightarrow> exn + string list" where
  "get_time_filtered_flights backend state target_time_str a =
     (if length (origin a) \<noteq> 3 \<or> length (destination a) \<noteq> 3
      then Inr [''Origin and destination must be 3 characters.'']
      else if length (departure_date a) \<noteq> 10 \<or> departure_date a ! 4 \<noteq> CHR ''-''
              \<or> departure_date a ! 7 \<noteq> CHR ''-''
      then Inr [''Departure date must be in YYYY-MM-DD format.'']
      else if trip_type a \<noteq> ''one-way'' \<and> trip_type a \<noteq> ''round-trip''
      then Inr [''Trip type must be either 'one-way' or 'round-trip'.'']
      else if seat a \<noteq> ''economy'' \<and> seat a \<noteq> ''premium-economy'' \<and> seat a \<noteq> ''business''
              \<and> seat a \<noteq> ''first''
      then Inr [''Seat type must be either 'economy', 'premium-economy', 'business', or 'first'.'']
      else if state \<noteq> ''before'' \<and> state \<noteq> ''after''
      then Inr [''State must be either 'before' or 'after'.'']
      else case get_time_filtered_flights_try backend state target_time_str a of
             Inl e \<Rightarrow> except_clauses e
           | Inr output \<Rightarrow> Inr output)"

section \<open>Specification-level definitions\<close>

text \<open>
  The invariant of a validated query: what the four parameter checks of every tool
  establish together.
\<close>

definition valid_query :: "flight_args \<Rightarrow> bool" where
  "valid_query a =
     (length (origin a) = 3 \<and> length (destination a) = 3
      \<and> length (departure_date a) = 10 \<and> departure_date a ! 4 = CHR ''-''
      \<and> departure_date a ! 7 = CHR ''-''
      \<and> trip_type a \<in> set [''one-way'', ''round-trip'']
      \<and> seat a \<in> set [''economy'', ''premium-economy'', ''business'', ''first''])"

text \<open>
  The query validator as the specification words it: a list of checks in a fixed order,
  each with its rejection message; the answer is the message of the first check that fails.
  The time-window tool adds two checks.
\<close>

definition checks :: "((flight_args \<Rightarrow> bool) \<times> string) list" where
  "checks =
     [(\<lambda>a. length (origin a) = 3, ''Origin and destination must be 3 characters.''),
      (\<lambda>a. length (destination a) = 3, ''Origin and destination must be 3 characters.''),
      (\<lambda>a. length (departure_date a) = 10 \<and> departure_date a ! 4 = CHR ''-''
            \<and> departure_date a ! 7 = CHR ''-'',
       ''Departure date must be in YYYY-MM-DD format.''),
      (\<lambda>a. trip_type a \<in> set [''one-way'', ''round-trip''],
       ''Trip type must be either 'one-way' or 'round-trip'.''),
      (\<lambda>a. seat a \<in> set [''economy'', ''premium-economy'', ''business'', ''first''],
       ''Seat type must be either 'economy', 'premium-economy', 'business', or 'first'.'')]"

definition time_checks ::
  "string \<Rightarrow> string \<Rightarrow> ((flight_args \<Rightarrow> bool) \<times> string) list" where
  "time_checks state target_time_str =
     checks @
     [(\<lambda>a. state \<in> set [''before'', ''after''], ''State must be either 'before' or 'after'.''),
      (\<lambda>a. \<not> isl (strptime target_time_str),
       ''Invalid time format. Please use HH:MM AM/PM format (e.g., '7:00 PM').'')]"

definition first_rejection ::
  "((flight_args \<Rightarrow> bool) \<times> string) list \<Rightarrow> flight_args \<Rightarrow> string option" where
  "first_rejection cs a = map_option snd (find (\<lambda>c. \<not> fst c a) cs)"

text \<open>
  The duration pattern of the specification: four tokens, the second \<open>hours\<close> and the
  fourth \<open>minutes\<close>.
\<close>

definition spec_duration_pattern :: "string \<Rightarrow> bool" where
  "spec_duration_pattern s =
     (case str_split s of
        [h, w1, m, w2] \<Rightarrow> w1 = ''hours'' \<and> w2 = ''minutes''
      | _ \<Rightarrow> False)"

text \<open>
  A record formats when \<open>format_flight_info\<close> returns a line for it; \<open>line\<close> is that line,
  \<open>departs\<close> the clock time parsed from its departure string.
\<close>

definition formats :: "string \<Rightarrow> string \<Rightarrow> flight \<Rightarrow> bool" where
  "formats origin_airport destination_airport f =
     (\<not> isl (format_flight_info f origin_airport destination_airport))"

definition line :: "string \<Rightarrow> string \<Rightarrow> flight \<Rightarrow> string" where
  "line origin_airport destination_airport f =
     projr (format_flight_info f origin_airport destination_airport)"

definition departs :: "flight \<Rightarrow> time" where
  "departs f = projr (flight_time f)"

text \<open>
  A clock time as the backend displays it, \<open>H:MM AM\<close> or \<open>H:MM PM\<close> with the hour from 1 to
  12 and the minute below 60, and the time of day it denotes: 12 AM is hour 0, 12 PM is hour
  12.
\<close>

definition two_digit :: "nat \<Rightarrow> string" where
  "two_digit n = [''0123456789'' ! (n div 10), ''0123456789'' ! (n mod 10)]"

definition display_clock :: "nat \<Rightarrow> nat \<Rightarrow> bool \<Rightarrow> string" where
  "display_clock h m pm =
     (if h < 10 then [''0123456789'' ! h] else two_digit h) @ '':'' @ two_digit m @ '' ''
     @ (if pm then ''PM'' else ''AM'')"

definition clock24 :: "nat \<Rightarrow> nat \<Rightarrow> bool \<Rightarrow> time" where
  "clock24 h m pm = (h mod 12 + (if pm then 12 else 0), m)"

text \<open>
  Whether an exception is an instance of \<open>Exception\<close>, the class the last \<open>except\<close> clause
  names.
\<close>

fun is_exception :: "exn \<Rightarrow> bool" where
  "is_exception (BaseExceptionOnly d) = False"
| "is_exception e = True"

text \<open>
  What Python promises of \<open>sorted(xs, key=f)\<close> when no key is NaN: the result is ascending
  (no record's key is less than the key of a record before it) and stable (for every key, the
  records with that key are the same and in the same order as in the input). Both are
  written with \<open><\<close> and \<open>==\<close> on floats alone. With a NaN key Python promises nothing of the
  order.
\<close>

definition ascending :: "('a \<Rightarrow> 'r::linorder pyfloat) \<Rightarrow> 'a list \<Rightarrow> bool" where
  "ascending key xs = sorted_wrt (\<lambda>x y. \<not> float_lt (key y) (key x)) xs"

definition stable :: "('a \<Rightarrow> 'r pyfloat) \<Rightarrow> 'a list \<Rightarrow> 'a list \<Rightarrow> bool" where
  "stable key xs ys = (\<forall>k. filter (\<lambda>x. key x = k) ys = filter (\<lambda>x. key x = k) xs)"

definition sorts_stably ::
  "(('a \<Rightarrow> 'r::linorder pyfloat) \<Rightarrow> 'a list \<Rightarrow> 'a list) \<Rightarrow> bool" where
  "sorts_stably py_sorted =
     (\<forall>key xs. list_all (\<lambda>x. key x \<noteq> NaN) xs \<longrightarrow>
        ascending key (py_sorted key xs) \<and> stable key xs (py_sorted key xs))"

text \<open>
  A sort that keeps the promise: insertion from the right, each record going before the first
  record whose key is not less than its own.
\<close>

fun insort_lt :: "('a \<Rightarrow> 'r::linorder pyfloat) \<Rightarrow> 'a \<Rightarrow> 'a list \<Rightarrow> 'a list" where
  "insort_lt key x [] = [x]"
| "insort_lt key x (y # ys) =
     (if float_lt (key y) (key x) then y # insort_lt key x ys else x # y # ys)"

definition stable_sort :: "('a \<Rightarrow> 'r::linorder pyfloat) \<Rightarrow> 'a list \<Rightarrow> 'a list" where
  "stable_sort key xs = foldr (insort_lt key) xs []"

section \<open>Sample queries, flights and backends\<close>

definition jfk_fco :: flight_args where
  "jfk_fco = \<lparr>origin = ''JFK'', destination = ''FCO'', departure_date = ''2025-04-05'',
              trip_type = ''one-way'', seat = ''economy'', adults = 1, children = 0,
              infants_in_seat = 0, infants_on_lap = 0\<rparr>"

definition flight_a :: flight where
  "flight_a = \<lparr>is_best = True, name = ''Delta'', departure = ''9:40 AM on Sat, Apr 5'',
               arrival = ''11:55 PM on Sat, Apr 5'', duration = ''8 hr 15 min'', stops = 0,
               price = Some ''$1,234''\<rparr>"

definition flight_b :: flight where
  "flight_b = \<lparr>is_best = False, name = ''ITA'', departure = ''7:00 PM on Sat, Apr 5'',
               arrival = ''9:05 AM on Sun, Apr 6'', duration = ''8 hr 5 min'', stops = 1,
               price = Some ''$499''\<rparr>"

definition flight_c :: flight where
  "flight_c = \<lparr>is_best = False, name = ''TAP'', departure = ''6:15 AM on Sat, Apr 5'',
               arrival = ''7:30 AM on Sun, Apr 6'', duration = ''19 hr 15 min'', stops = 2,
               price = Some ''Price unavailable''\<rparr>"

definition flight_d :: flight where
  "flight_d = \<lparr>is_best = True, name = ''United'', departure = ''7:00 PM on Sat, Apr 5'',
               arrival = ''10:10 AM on Sun, Apr 6'', duration = ''9 hr 10 min'', stops = 0,
               price = Some ''$499''\<rparr>"

definition flight_e :: flight where
  "flight_e = \<lparr>is_best = False, name = ''Lufthansa'', departure = ''5:30 PM on Sat, Apr 5'',
               arrival = ''11:45 AM on Sun, Apr 6'', duration = ''12 hr 15 min'', stops = 1,
               price = None\<rparr>"


definition returns :: "flight list \<Rightarrow> backend" where
  "returns fs = (\<lambda>a. Inr \<lparr>current_price = ''typical'', flights = Some fs\<rparr>)"


definition returns_no_flights_field :: backend where
  "returns_no_flights_field = (\<lambda>a. Inr \<lparr>current_price = ''typical'', flights = None\<rparr>)"

text \<open>
  An instance of the \<open>float\<close> parameter for prices in whole dollars: digit strings are
  read as numbers, \<open>nan\<close> and \<open>inf\<close> as \<open>float\<close> reads them, every other string is refused.
\<close>

definition float_of_digits :: "string \<Rightarrow> nat pyfloat option" where
  "float_of_digits s =
     (if s \<noteq> [] \<and> list_all is_digit s then Some (Finite (int_of_digits s))
      else if s = ''nan'' then Some NaN
      else if s = ''inf'' then Some PosInf
      else None)"

section \<open>Tokenizer lemmas\<close>

lemmas split_eval = str_split_def isspace_def

lemma length_four: "length xs = 4 \<longleftrightarrow> (\<exists>a b c d. xs = [a, b, c, d])"
  by (auto simp: length_Suc_conv numeral_eq_Suc)

lemma split_ws_tokens:
  "\<forall>c \<in> set word. \<not> isspace c \<Longrightarrow> w \<in> set (split_ws s word) \<Longrightarrow> w \<noteq> [] \<and> (\<forall>c \<in> set w. \<not> isspace c)"
proof (induction s arbitrary: word)
  case Nil
  then show ?case by (cases "word = []") simp_all
next
  case (Cons c cs)
  show ?case
  proof (cases "isspace c")
    case True
    show ?thesis
    proof (cases "word = []")
      case True
      with \<open>isspace c\<close> Cons.prems(2) have "w \<in> set (split_ws cs [])" by simp
      then show ?thesis using Cons.IH[of "[]"] by simp
    next
      case False
      with \<open>isspace c\<close> Cons.prems(2) have "w = word \<or> w \<in> set (split_ws cs [])" by simp
      then show ?thesis using Cons.IH[of "[]"] Cons.prems(1) False by auto
    qed
  next
    case False
    with Cons.prems(2) have "w \<in> set (split_ws cs (word @ [c]))" by simp
    moreover have "\<forall>x \<in> set (word @ [c]). \<not> isspace x" using Cons.prems(1) False by simp
    ultimately show ?thesis using Cons.IH[of "word @ [c]"] by blast
  qed
qed

lemma str_split_tokens: "w \<in> set (str_split s) \<Longrightarrow> w \<noteq> [] \<and> (\<forall>c \<in> set w. \<not> isspace c)"
  unfolding str_split_def using split_ws_tokens[of "[]" w s] by simp

lemma split_ws_word: "\<forall>c \<in> set w. \<not> isspace c \<Longrightarrow> split_ws (w @ s) word = split_ws s (word @ w)"
  by (induction w arbitrary: word) auto

lemma split_ws_token_space:
  "\<forall>c \<in> set w. \<not> isspace c \<Longrightarrow> w \<noteq> [] \<Longrightarrow> isspace c \<Longrightarrow> split_ws (w @ c # s) [] = w # split_ws s []"
  by (simp add: split_ws_word)

lemma split_ws_token_end:
  "\<forall>c \<in> set w. \<not> isspace c \<Longrightarrow> w \<noteq> [] \<Longrightarrow> split_ws w [] = [w]"
  using split_ws_word[of w "[]" "[]"] by simp

section \<open>Duration and date expansion\<close>

lemma duration_formatted_cases: "duration_formatted s =
   (case str_split s of [h, w1, m, w2] \<Rightarrow> h @ '' hours and '' @ m @ '' minutes'' | _ \<Rightarrow> s)"
proof (cases "length (str_split s) = 4")
  case True
  then obtain a b c d where "str_split s = [a, b, c, d]" by (auto simp: length_four)
  then show ?thesis by (simp add: duration_formatted_def)
next
  case False
  then have "\<And>a b c d. str_split s \<noteq> [a, b, c, d]" by auto
  then show ?thesis using False by (simp add: duration_formatted_def split: list.split)
qed

lemma rewritten_has_five_tokens:
  assumes "str_split s = [h, w1, m, w2]"
  shows "str_split (h @ '' hours and '' @ m @ '' minutes'') = [h, ''hours'', ''and'', m, ''minutes'']"
proof -
  have h: "h \<noteq> []" "\<forall>c \<in> set h. \<not> isspace c" and m: "m \<noteq> []" "\<forall>c \<in> set m. \<not> isspace c"
    using str_split_tokens[of h s] str_split_tokens[of m s] assms by simp_all
  have sp: "isspace CHR '' ''" by (simp add: isspace_def)
  have ns: "\<forall>c \<in> set ''hours''. \<not> isspace c" "\<forall>c \<in> set ''and''. \<not> isspace c" "\<forall>c \<in> set ''minutes''. \<not> isspace c"
    by (simp_all add: isspace_def)
  have 1: "split_ws ''minutes'' [] = [''minutes'']" by (rule split_ws_token_end[OF ns(3)]) simp
  have 2: "split_ws (m @ CHR '' '' # ''minutes'') [] = m # split_ws ''minutes'' []"
    by (rule split_ws_token_space[OF m(2) m(1) sp])
  have 3: "split_ws (''and'' @ CHR '' '' # (m @ CHR '' '' # ''minutes'')) [] = ''and'' # split_ws (m @ CHR '' '' # ''minutes'') []"
    by (rule split_ws_token_space[OF ns(2) _ sp]) simp
  have 4: "split_ws (''hours'' @ CHR '' '' # (''and'' @ CHR '' '' # (m @ CHR '' '' # ''minutes''))) []
      = ''hours'' # split_ws (''and'' @ CHR '' '' # (m @ CHR '' '' # ''minutes'')) []"
    by (rule split_ws_token_space[OF ns(1) _ sp]) simp
  have 5: "split_ws (h @ CHR '' '' # (''hours'' @ CHR '' '' # (''and'' @ CHR '' '' # (m @ CHR '' '' # ''minutes'')))) []
      = h # split_ws (''hours'' @ CHR '' '' # (''and'' @ CHR '' '' # (m @ CHR '' '' # ''minutes''))) []"
    by (rule split_ws_token_space[OF h(2) h(1) sp])
  have e: "h @ '' hours and '' @ m @ '' minutes''
     = h @ CHR '' '' # (''hours'' @ CHR '' '' # (''and'' @ CHR '' '' # (m @ CHR '' '' # ''minutes'')))"
    by simp
  show ?thesis unfolding str_split_def e 5 4 3 2 1 ..
qed

lemma duration_changed_iff: "duration_formatted s \<noteq> s \<longleftrightarrow> length (str_split s) = 4"
proof
  assume "duration_formatted s \<noteq> s"
  then show "length (str_split s) = 4" by (simp add: duration_formatted_def Let_def split: if_splits)
next
  assume l: "length (str_split s) = 4"
  then obtain h w1 m w2 where e: "str_split s = [h, w1, m, w2]" by (auto simp: length_four)
  have d: "duration_formatted s = h @ '' hours and '' @ m @ '' minutes''" using e by (simp add: duration_formatted_cases)
  show "duration_formatted s \<noteq> s"
  proof
    assume "duration_formatted s = s"
    then have "str_split s = str_split (h @ '' hours and '' @ m @ '' minutes'')" using d by simp
    then show False unfolding rewritten_has_five_tokens[OF e] e by simp
  qed
qed

lemma expand_date_six:
  assumes "str_split s = t0 # t1 # t2 # t3 # t4 # t5 # rest"
  shows "expand_date s = Inr (t0 @ '' '' @ t1 @ '' on ''
           @ dict_get day_map (rstrip t3 CHR '','') (rstrip t3 CHR '','') @ '', ''
           @ dict_get month_map t4 t4 @ '' '' @ t5 @ day_suffix t5)"
  using assms by (simp add: expand_date_def getitem_def bind_exn_def Let_def)

lemma expand_date_short:
  assumes "length (str_split s) < 6"
  shows "expand_date s = Inl (OtherException ''list index out of range'')"
  using assms by (simp add: expand_date_def getitem_def bind_exn_def Let_def)

lemmas expand_eval = expand_date_def str_split_def isspace_def bind_exn_def getitem_def rstrip_def
  dict_get_def day_map_def month_map_def day_suffix_def endswith_any_def endswith_def

lemma lookup_tables:
  "map (\<lambda>k. dict_get day_map k k) [''Mon'', ''Tue'', ''Wed'', ''Thu'', ''Fri'', ''Sat'', ''Sun'']
     = [''Monday'', ''Tuesday'', ''Wednesday'', ''Thursday'', ''Friday'', ''Saturday'', ''Sunday'']"
  "map (\<lambda>k. dict_get month_map k k)
       [''Jan'', ''Feb'', ''Mar'', ''Apr'', ''May'', ''Jun'', ''Jul'', ''Aug'', ''Sep'', ''Oct'', ''Nov'', ''Dec'']
     = [''January'', ''February'', ''March'', ''April'', ''May'', ''June'', ''July'', ''August'',
        ''September'', ''October'', ''November'', ''December'']"
  by (simp_all add: dict_get_def day_map_def month_map_def)

lemma digit_inj: "a < 10 \<Longrightarrow> b < 10 \<Longrightarrow> (''0123456789'' ! a = ''0123456789'' ! b) = (a = b)"
proof -
  have d: "distinct ''0123456789''" by simp
  show "a < 10 \<Longrightarrow> b < 10 \<Longrightarrow> (''0123456789'' ! a = ''0123456789'' ! b) = (a = b)"
    using nth_eq_iff_index_eq[OF d, of a b] by simp
qed

lemma str_nat_last: "rev (str_nat n) = (''0123456789'' ! (n mod 10)) # (if n < 10 then [] else rev (str_nat (n div 10)))"
  by (subst str_nat.simps) simp

lemma rev_str_nat_ge10: "10 \<le> n \<Longrightarrow> rev (str_nat n) =
   (''0123456789'' ! (n mod 10)) # (''0123456789'' ! (n div 10 mod 10)) # (if n div 10 < 10 then [] else rev (str_nat (n div 10 div 10)))"
  using str_nat_last[of n] str_nat_last[of "n div 10"] by simp

lemma rev_str_nat_lt10: "n < 10 \<Longrightarrow> rev (str_nat n) = [''0123456789'' ! n]"
  using str_nat_last[of n] by simp

lemma ends_one: "d < 10 \<Longrightarrow> endswith (str_nat n) [''0123456789'' ! d] \<longleftrightarrow> n mod 10 = d"
  unfolding endswith_def using str_nat_last[of n] digit_inj[of "n mod 10" d] by simp

lemma ends_two: "d1 < 10 \<Longrightarrow> d2 < 10 \<Longrightarrow>
   endswith (str_nat n) [''0123456789'' ! d1, ''0123456789'' ! d2] \<longleftrightarrow> 10 \<le> n \<and> n div 10 mod 10 = d1 \<and> n mod 10 = d2"
proof (cases "10 \<le> n")
  case True
  assume "d1 < 10" "d2 < 10"
  then show ?thesis unfolding endswith_def using True rev_str_nat_ge10[OF True]
      digit_inj[of "n mod 10" d2] digit_inj[of "n div 10 mod 10" d1] by auto
next
  case False
  then have "n < 10" by simp
  then show ?thesis unfolding endswith_def using rev_str_nat_lt10[of n] by simp
qed

lemma ends_simps:
  "endswith (str_nat n) ''1'' \<longleftrightarrow> n mod 10 = 1"
  "endswith (str_nat n) ''2'' \<longleftrightarrow> n mod 10 = 2"
  "endswith (str_nat n) ''3'' \<longleftrightarrow> n mod 10 = 3"
  "endswith (str_nat n) ''11'' \<longleftrightarrow> 10 \<le> n \<and> n div 10 mod 10 = 1 \<and> n mod 10 = 1"
  "endswith (str_nat n) ''12'' \<longleftrightarrow> 10 \<le> n \<and> n div 10 mod 10 = 1 \<and> n mod 10 = 2"
  "endswith (str_nat n) ''13'' \<longleftrightarrow> 10 \<le> n \<and> n div 10 mod 10 = 1 \<and> n mod 10 = 3"
  using ends_one[of 1 n] ends_one[of 2 n] ends_one[of 3 n]
        ends_two[of 1 1 n] ends_two[of 1 2 n] ends_two[of 1 3 n]
  by simp_all

lemma mod_100_digits: "(n::nat) mod 100 = 10 * (n div 10 mod 10) + n mod 10"
  using mod_mult2_eq[of n 10 10] by simp

lemma two_digits: "(b::nat) < 10 \<Longrightarrow> d < 10 \<Longrightarrow> (a = 1 \<and> b = d) \<longleftrightarrow> (10 * a + b = 10 + d)"
  by arith

lemma teens_mod_100: "d < 10 \<Longrightarrow> (10 \<le> n \<and> n div 10 mod 10 = 1 \<and> n mod 10 = d) \<longleftrightarrow> n mod 100 = 10 + (d::nat)"
proof -
  assume d: "d < 10"
  have g: "n div 10 mod 10 = 1 \<Longrightarrow> 10 \<le> n"
  proof (rule ccontr)
    assume a: "n div 10 mod 10 = 1" "\<not> 10 \<le> n"
    then have "n div 10 = 0" by simp
    with a show False by simp
  qed
  have "n mod 10 < 10" by simp
  from two_digits[OF this d, of "n div 10 mod 10"] g show ?thesis unfolding mod_100_digits by blast
qed

lemma last_digit: "(n::nat) mod 100 = 10 + d \<Longrightarrow> d < 10 \<Longrightarrow> n mod 10 = d"
  using teens_mod_100[of d n] by simp

lemma day_suffix_number:
  "day_suffix (str_nat n) =
     (if n mod 100 \<in> {11, 12, 13} then ''th''
      else if n mod 10 = 1 then ''st''
      else if n mod 10 = 2 then ''nd''
      else if n mod 10 = 3 then ''rd''
      else ''th'')"
proof -
  have t: "(10 \<le> n \<and> n div 10 mod 10 = 1 \<and> n mod 10 = 1) \<longleftrightarrow> n mod 100 = 11"
          "(10 \<le> n \<and> n div 10 mod 10 = 1 \<and> n mod 10 = 2) \<longleftrightarrow> n mod 100 = 12"
          "(10 \<le> n \<and> n div 10 mod 10 = 1 \<and> n mod 10 = 3) \<longleftrightarrow> n mod 100 = 13"
    using teens_mod_100[of 1 n] teens_mod_100[of 2 n] teens_mod_100[of 3 n] by simp_all
  have m: "n mod 100 = 11 \<Longrightarrow> n mod 10 = 1" "n mod 100 = 12 \<Longrightarrow> n mod 10 = 2" "n mod 100 = 13 \<Longrightarrow> n mod 10 = 3"
    using last_digit[of n 1] last_digit[of n 2] last_digit[of n 3] by simp_all
  have e: "endswith_any (str_nat n) [''1'', ''2'', ''3''] \<longleftrightarrow> n mod 10 = 1 \<or> n mod 10 = 2 \<or> n mod 10 = 3"
    by (simp add: endswith_any_def ends_simps)
  have f: "endswith_any (str_nat n) [''11'', ''12'', ''13''] \<longleftrightarrow> n mod 100 = 11 \<or> n mod 100 = 12 \<or> n mod 100 = 13"
    using t by (simp add: endswith_any_def ends_simps)
  show ?thesis
    unfolding day_suffix_def e f ends_simps(1-3)
    using m by auto
qed

section \<open>Loops and the tools on a validated query\<close>

lemma slice_to_cap: "slice_to xs (min 30 (int (length xs))) = take 30 xs"
  by (simp add: slice_to_def min_def)

lemma format_loop_ok:
  "list_all (formats oa da) fs \<Longrightarrow> format_loop fs oa da acc = Inr (acc @ map (line oa da) fs)"
proof (induction fs arbitrary: acc)
  case Nil
  then show ?case by simp
next
  case (Cons f fs)
  then obtain l where l: "format_flight_info f oa da = Inr l"
    by (cases "format_flight_info f oa da") (simp_all add: formats_def)
  then have "line oa da f = l" by (simp add: line_def)
  with Cons l show ?case by simp
qed

lemma format_loop_fail:
  "\<not> list_all (formats oa da) fs \<Longrightarrow> isl (format_loop fs oa da acc)"
proof (induction fs arbitrary: acc)
  case Nil
  then show ?case by simp
next
  case (Cons f fs)
  then show ?case by (cases "format_flight_info f oa da") (simp_all add: formats_def)
qed

lemma best_flights_loop_filter: "best_flights_loop fs acc = acc @ filter is_best fs"
  by (induction fs arbitrary: acc) simp_all

lemma formats_iff:
  "formats oa da f \<longleftrightarrow> 6 \<le> length (str_split (departure f)) \<and> 6 \<le> length (str_split (arrival f))"
  by (auto simp: formats_def format_flight_info_def expand_date_def bind_exn_def getitem_def Let_def split: sum.splits)

lemma valid_flights_loop_filter:
  assumes "list_all (\<lambda>f. \<not> isl (flight_time f)) fs"
  shows "valid_flights_loop state t fs acc =
           Inr (acc @ filter (\<lambda>f. if state = ''before'' then departs f < t
                                   else state = ''after'' \<and> t \<le> departs f) fs)"
  using assms
proof (induction fs arbitrary: acc)
  case Nil
  then show ?case by simp
next
  case (Cons f fs)
  then obtain ft where ft: "flight_time f = Inr ft"
    by (cases "flight_time f") simp_all
  then have d: "departs f = ft" by (simp add: departs_def)
  from Cons have ih: "\<And>acc. valid_flights_loop state t fs acc =
           Inr (acc @ filter (\<lambda>f. if state = ''before'' then departs f < t
                                   else state = ''after'' \<and> t \<le> departs f) fs)"
    by simp
  show ?case by (simp add: ft d ih)
qed

lemma general_valid:
  "valid_query a \<Longrightarrow> get_general_flights_info backend a n =
     (case get_general_flights_info_try backend a n of Inl e \<Rightarrow> except_clauses e | Inr out \<Rightarrow> Inr out)"
  by (auto simp add: valid_query_def get_general_flights_info_def)

lemma cheapest_valid:
  "valid_query a \<Longrightarrow> get_cheapest_flights py_float py_sorted backend a =
     (case get_cheapest_flights_try py_float py_sorted backend a of Inl e \<Rightarrow> except_clauses e | Inr out \<Rightarrow> Inr out)"
  by (auto simp add: valid_query_def get_cheapest_flights_def)

lemma best_valid:
  "valid_query a \<Longrightarrow> get_best_flights backend a =
     (case get_best_flights_try backend a of Inl e \<Rightarrow> except_clauses e | Inr out \<Rightarrow> Inr out)"
  by (auto simp add: valid_query_def get_best_flights_def)

lemma time_valid:
  "valid_query a \<Longrightarrow> state = ''before'' \<or> state = ''after'' \<Longrightarrow>
   get_time_filtered_flights backend state t a =
     (case get_time_filtered_flights_try backend state t a of Inl e \<Rightarrow> except_clauses e | Inr out \<Rightarrow> Inr out)"
  by (auto simp add: valid_query_def get_time_filtered_flights_def)

lemma general_try_flights:
  "backend a = Inr r \<Longrightarrow> flights r = Some F \<Longrightarrow> F \<noteq> [] \<Longrightarrow>
   get_general_flights_info_try backend a n =
     bind_exn (format_loop (slice_to F (min n (int (length F)))) (origin a) (destination a) [])
       (\<lambda>flight_info. Inr ((''The current overall flight prices for this route and time are: ''
                           @ current_price r @ ''.'') # flight_info))"
  by (simp add: get_general_flights_info_try_def bind_exn_def)

lemma cheapest_try_flights:
  "backend a = Inr r \<Longrightarrow> flights r = Some F \<Longrightarrow> F \<noteq> [] \<Longrightarrow>
   get_cheapest_flights_try py_float py_sorted backend a =
     bind_exn (format_loop (take 30 (py_sorted (get_price_value py_float) F)) (origin a) (destination a) [])
       (\<lambda>flight_info. Inr (''Here are the cheapest flights for this route and time: '' # flight_info))"
  by (simp add: get_cheapest_flights_try_def bind_exn_def slice_to_cap Let_def)

lemma best_try_flights:
  "backend a = Inr r \<Longrightarrow> flights r = Some F \<Longrightarrow> F \<noteq> [] \<Longrightarrow>
   get_best_flights_try backend a =
     (if filter is_best F = [] then Inr [''No best flights found for the specified route and dates.'']
      else bind_exn (format_loop (take 30 (filter is_best F)) (origin a) (destination a) [])
       (\<lambda>flight_info. Inr (''Here are the best flights for this route and time: '' # flight_info)))"
  by (simp add: get_best_flights_try_def bind_exn_def slice_to_cap best_flights_loop_filter Let_def)

lemma time_try_flights:
  "strptime t = Inr target \<Longrightarrow> backend a = Inr r \<Longrightarrow> flights r = Some F \<Longrightarrow> F \<noteq> [] \<Longrightarrow>
   get_time_filtered_flights_try backend state t a =
     bind_exn (valid_flights_loop state target F [])
       (\<lambda>valid_flights.
          if valid_flights = []
          then Inr [''No flights found '' @ state @ '' '' @ t @ '' for the specified route and dates.'']
          else bind_exn (format_loop (take 30 valid_flights) (origin a) (destination a) [])
                 (\<lambda>flight_info.
                    Inr ((''Here are the time-filtered flights ''
                          @ (if state = ''before'' then ''before'' else ''on or after'')
                          @ '' '' @ t @ '': '') # flight_info)))"
  by (simp add: get_time_filtered_flights_try_def bind_exn_def slice_to_cap Let_def split: sum.splits)

lemma except_clauses_caught: "is_exception e \<Longrightarrow> \<exists>msg. except_clauses e = Inr [msg]"
  by (cases e) simp_all

lemma except_clauses_not_empty_result:
  "except_clauses e \<noteq> Inr [''No flights found for the specified route and dates.'']"
  "except_clauses e \<noteq> Inr [''No flight data available for the specified route and dates.'']"
  by (cases e; simp)+

section \<open>What the processing code can raise\<close>

lemma getitem_raises: "getitem xs i = Inl e \<Longrightarrow> e = OtherException ''list index out of range''"
  by (auto simp: getitem_def split: if_splits)

lemma bind_exn_Inl:
  "bind_exn m f = Inl e \<Longrightarrow> m = Inl e \<or> (\<exists>x. m = Inr x \<and> f x = Inl e)"
  by (cases m) (simp_all add: bind_exn_def)

lemma expand_date_raises:
  "expand_date s = Inl e \<Longrightarrow> e = OtherException ''list index out of range''"
  unfolding expand_date_def Let_def
  by (auto dest!: bind_exn_Inl dest: getitem_raises)

lemma format_flight_info_raises:
  "format_flight_info f oa da = Inl e \<Longrightarrow> e = OtherException ''list index out of range''"
  unfolding format_flight_info_def
  by (auto dest!: bind_exn_Inl dest: expand_date_raises)

lemma format_loop_index_error:
  "format_loop fs oa da acc = Inl e \<Longrightarrow> e = OtherException ''list index out of range''"
proof (induction fs arbitrary: acc)
  case Nil
  then show ?case by simp
next
  case (Cons f fs)
  then show ?case
    by (cases "format_flight_info f oa da") (auto dest: format_flight_info_raises)
qed

lemma format_loop_raises: "format_loop fs oa da acc = Inl e \<Longrightarrow> is_exception e"
  by (drule format_loop_index_error) simp

lemma strptime_raises: "strptime t = Inl e \<Longrightarrow> \<exists>d. e = ValueError d"
  by (auto simp: strptime_def split: option.splits if_splits prod.splits)

lemma flight_time_raises: "flight_time f = Inl e \<Longrightarrow> is_exception e"
  unfolding flight_time_def Let_def
  by (auto dest!: bind_exn_Inl dest: getitem_raises strptime_raises)

lemma valid_flights_loop_raises:
  "valid_flights_loop state t fs acc = Inl e \<Longrightarrow> is_exception e"
proof (induction fs arbitrary: acc)
  case Nil
  then show ?case by simp
next
  case (Cons f fs)
  then show ?case
    by (cases "flight_time f") (auto dest: flight_time_raises)
qed

lemma valid_flights_loop_fail:
  "\<not> list_all (\<lambda>f. \<not> isl (flight_time f)) fs \<Longrightarrow> isl (valid_flights_loop state t fs acc)"
proof (induction fs arbitrary: acc)
  case Nil
  then show ?case by simp
next
  case (Cons f fs)
  then show ?case by (cases "flight_time f") simp_all
qed













section \<open>Float comparison and the stable sort\<close>

lemma float_lt_irrefl: "\<not> float_lt x x"
  by (cases x) simp_all

lemma float_lt_asym: "float_lt x y \<Longrightarrow> \<not> float_lt y x"
  by (cases x; cases y) auto

lemma float_lt_total: "x \<noteq> NaN \<Longrightarrow> y \<noteq> NaN \<Longrightarrow> float_lt x y \<or> x = y \<or> float_lt y x"
  by (cases x; cases y) auto

lemma float_le_trans:
  "y \<noteq> NaN \<Longrightarrow> \<not> float_lt y x \<Longrightarrow> \<not> float_lt z y \<Longrightarrow> \<not> float_lt z x"
  by (cases x; cases y; cases z) auto

lemma float_lt_PosInf: "\<not> float_lt PosInf x"
  by (cases x) simp_all

lemma set_insort_lt: "set (insort_lt key x ys) = insert x (set ys)"
  by (induction ys) auto

lemma length_insort_lt: "length (insort_lt key x ys) = Suc (length ys)"
  by (induction ys) auto

lemma filter_insort_lt:
  "filter (\<lambda>z. key z = k) (insort_lt key x ys)
     = (if key x = k then x # filter (\<lambda>z. key z = k) ys else filter (\<lambda>z. key z = k) ys)"
  by (induction ys) (auto simp: float_lt_irrefl)

lemma ascending_insort_lt:
  assumes "\<forall>y \<in> set ys. key y \<noteq> NaN" and "ascending key ys"
  shows "ascending key (insort_lt key x ys)"
  using assms
proof (induction ys)
  case Nil
  then show ?case by (simp add: ascending_def)
next
  case (Cons y ys)
  show ?case
  proof (cases "float_lt (key y) (key x)")
    case True
    have "ascending key (insort_lt key x ys)" using Cons by (simp add: ascending_def)
    moreover have "\<not> float_lt (key z) (key y)" if "z \<in> set (insort_lt key x ys)" for z
      using that True Cons.prems(2) by (auto simp: set_insort_lt ascending_def dest: float_lt_asym)
    ultimately show ?thesis using True by (simp add: ascending_def)
  next
    case False
    have "\<not> float_lt (key z) (key x)" if "z \<in> set (y # ys)" for z
    proof (cases "z = y")
      case True
      then show ?thesis using False by simp
    next
      case ne: False
      then have "z \<in> set ys" using that by simp
      then have "\<not> float_lt (key z) (key y)" using Cons.prems(2) by (simp add: ascending_def)
      moreover have "key y \<noteq> NaN" using Cons.prems(1) by simp
      ultimately show ?thesis using False float_le_trans by blast
    qed
    then show ?thesis using False Cons.prems(2) by (simp add: ascending_def)
  qed
qed

lemma stable_sort_Cons: "stable_sort key (x # xs) = insort_lt key x (stable_sort key xs)"
  by (simp add: stable_sort_def)

lemma set_stable_sort: "set (stable_sort key xs) = set xs"
  by (induction xs) (simp_all add: stable_sort_Cons set_insort_lt, simp add: stable_sort_def)

lemma length_stable_sort: "length (stable_sort key xs) = length xs"
  by (induction xs) (simp_all add: stable_sort_Cons length_insort_lt, simp add: stable_sort_def)

lemma stable_stable_sort: "stable key xs (stable_sort key xs)"
  unfolding stable_def
proof
  fix k
  show "filter (\<lambda>x. key x = k) (stable_sort key xs) = filter (\<lambda>x. key x = k) xs"
    by (induction xs) (simp_all add: stable_sort_Cons filter_insort_lt, simp add: stable_sort_def)
qed

lemma ascending_stable_sort:
  "list_all (\<lambda>x. key x \<noteq> NaN) xs \<Longrightarrow> ascending key (stable_sort key xs)"
proof (induction xs)
  case Nil
  then show ?case by (simp add: stable_sort_def ascending_def)
next
  case (Cons x xs)
  then have "\<forall>y \<in> set (stable_sort key xs). key y \<noteq> NaN"
    by (simp add: set_stable_sort list_all_iff)
  then show ?case using Cons by (simp add: stable_sort_Cons ascending_insort_lt)
qed

lemma sorts_stably_stable_sort: "sorts_stably stable_sort"
  by (simp add: sorts_stably_def ascending_stable_sort stable_stable_sort)

text \<open>
  When no key is NaN, the promise determines the result: two ascending lists that both keep,
  for every key, the records of the input with that key in their order, are equal.
\<close>

lemma stable_set: "stable key xs ys \<Longrightarrow> set ys = set xs"
proof -
  assume s: "stable key xs ys"
  have "x \<in> set ys \<longleftrightarrow> x \<in> set xs" for x
  proof -
    have "x \<in> set ys \<longleftrightarrow> x \<in> set (filter (\<lambda>z. key z = key x) ys)" by simp
    also have "\<dots> \<longleftrightarrow> x \<in> set (filter (\<lambda>z. key z = key x) xs)"
      using s by (simp add: stable_def)
    also have "\<dots> \<longleftrightarrow> x \<in> set xs" by simp
    finally show ?thesis .
  qed
  then show ?thesis by blast
qed

lemma ascending_stable_unique:
  assumes "\<forall>y \<in> set ys. key y \<noteq> NaN"
    and "ascending key ys" and "ascending key zs" and "stable key zs ys"
  shows "ys = zs"
  using assms
proof (induction ys arbitrary: zs)
  case Nil
  then have "set zs = {}" using stable_set[OF Nil.prems(4)] by simp
  then show ?case by simp
next
  case (Cons y ys)
  have sets: "set (y # ys) = set zs" using stable_set[OF Cons.prems(4)] by simp
  then obtain z zs' where zs: "zs = z # zs'" by (cases zs) auto
  have nn: "key y \<noteq> NaN" "key z \<noteq> NaN" using Cons.prems(1) sets zs by auto
  have same: "key z = key y"
  proof (rule ccontr)
    assume ne: "key z \<noteq> key y"
    then have "z \<in> set ys" using sets zs by auto
    then have 1: "\<not> float_lt (key z) (key y)" using Cons.prems(2) by (simp add: ascending_def)
    have "y \<in> set zs'" using sets zs ne by auto
    then have 2: "\<not> float_lt (key y) (key z)" using Cons.prems(3) zs by (simp add: ascending_def)
    show False using float_lt_total[OF nn] 1 2 ne by auto
  qed
  have f: "filter (\<lambda>x. key x = k) (y # ys) = filter (\<lambda>x. key x = k) (z # zs')" for k
    using Cons.prems(4) zs by (simp add: stable_def)
  have yz: "y = z" using f[of "key y"] same by simp
  have tails: "stable key zs' ys"
    unfolding stable_def
  proof
    fix k
    show "filter (\<lambda>x. key x = k) ys = filter (\<lambda>x. key x = k) zs'"
      using f[of k] yz by (simp split: if_splits)
  qed
  have "ys = zs'"
    using Cons.IH[of zs'] Cons.prems(1-3) zs tails by (simp add: ascending_def)
  then show ?case using yz zs by simp
qed

lemma sorts_stably_unique:
  assumes "sorts_stably py_sorted" and "list_all (\<lambda>x. key x \<noteq> NaN) xs"
  shows "py_sorted key xs = stable_sort key xs"
proof -
  have a: "ascending key (py_sorted key xs)" and s: "stable key xs (py_sorted key xs)"
    using assms by (simp_all add: sorts_stably_def)
  have nn: "\<forall>y \<in> set (py_sorted key xs). key y \<noteq> NaN"
    using stable_set[OF s] assms(2) by (simp add: list_all_iff)
  have "stable key (stable_sort key xs) (py_sorted key xs)"
    using s stable_stable_sort[of key xs] by (simp add: stable_def)
  then show ?thesis
    using ascending_stable_unique[OF nn a ascending_stable_sort[OF assms(2)]] by simp
qed

lemma get_price_value_absent:
  "price f = None \<or> price f = Some [] \<or> price f = Some ''Price unavailable''
     \<or> (\<exists>s. price f = Some s \<and> py_float (remove_char (remove_char s CHR ''$'') CHR '','') = None)
   \<Longrightarrow> get_price_value py_float f = PosInf"
  by (auto simp: get_price_value_def)

lemma get_price_value_parsed:
  "price f = Some s \<Longrightarrow> s \<noteq> [] \<Longrightarrow> s \<noteq> ''Price unavailable'' \<Longrightarrow>
   py_float (remove_char (remove_char s CHR ''$'') CHR '','') = Some v \<Longrightarrow>
   get_price_value py_float f = v"
  by (simp add: get_price_value_def)

section \<open>Displayed clock times\<close>

lemma digit_cases: "d < 10 \<Longrightarrow> d \<in> {0, 1, 2, 3, 4, 5, 6, 7, 8, 9 :: nat}"
  by auto

lemma digit_facts:
  assumes "d < 10"
  shows "is_digit (''0123456789'' ! d)" and "digit_val (''0123456789'' ! d) = d"
    and "\<not> isspace (''0123456789'' ! d)" and "''0123456789'' ! d \<noteq> CHR '' ''"
  using digit_cases[OF assms] by (auto simp: is_digit_def digit_val_def isspace_def)

lemma match_M_two_digit: "m < 60 \<Longrightarrow> match_M (two_digit m)"
proof -
  assume "m < 60"
  then have "m div 10 < 6" by simp
  then have "m div 10 \<in> {0, 1, 2, 3, 4, 5}" by auto
  then have "''0123456789'' ! (m div 10) \<in> set ''012345''" by auto
  then show ?thesis by (simp add: match_M_def two_digit_def digit_facts)
qed

lemma int_of_two_digit: "n < 100 \<Longrightarrow> int_of_digits (two_digit n) = n"
  by (simp add: int_of_digits_def two_digit_def digit_facts)

lemma hour_field:
  assumes "1 \<le> h" and "h \<le> 12"
  shows "match_I (if h < 10 then [''0123456789'' ! h] else two_digit h)"
    and "int_of_digits (if h < 10 then [''0123456789'' ! h] else two_digit h) = h"
    and "list_all is_digit (if h < 10 then [''0123456789'' ! h] else two_digit h)"
    and "CHR '' '' \<notin> set (if h < 10 then [''0123456789'' ! h] else two_digit h)"
proof -
  let ?P = "\<lambda>h. match_I (if h < 10 then [''0123456789'' ! h] else two_digit h)
    \<and> int_of_digits (if h < 10 then [''0123456789'' ! h] else two_digit h) = h
    \<and> list_all is_digit (if h < 10 then [''0123456789'' ! h] else two_digit h)
    \<and> CHR '' '' \<notin> set (if h < 10 then [''0123456789'' ! h] else two_digit h)"
  have "list_all ?P [1, 2, 3, 4, 5, 6, 7, 8, 9, 10, 11, 12]"
    by (simp add: match_I_def two_digit_def int_of_digits_def digit_val_def is_digit_def)
  moreover have "h \<in> set [1, 2, 3, 4, 5, 6, 7, 8, 9, 10, 11, 12]"
    using assms by (simp; arith)
  ultimately have "?P h" unfolding list_all_iff by blast
  then show "match_I (if h < 10 then [''0123456789'' ! h] else two_digit h)"
    and "int_of_digits (if h < 10 then [''0123456789'' ! h] else two_digit h) = h"
    and "list_all is_digit (if h < 10 then [''0123456789'' ! h] else two_digit h)"
    and "CHR '' '' \<notin> set (if h < 10 then [''0123456789'' ! h] else two_digit h)"
    by blast+
qed

lemma takeWhile_digits:
  "list_all is_digit ds \<Longrightarrow> \<not> is_digit c \<Longrightarrow> takeWhile is_digit (ds @ c # rest) = ds"
  by (induction ds) simp_all

lemma dropWhile_digits:
  "list_all is_digit ds \<Longrightarrow> \<not> is_digit c \<Longrightarrow> dropWhile is_digit (ds @ c # rest) = c # rest"
  by (induction ds) simp_all

lemma strptime_display_clock:
  assumes "1 \<le> h" and "h \<le> 12" and "m < 60"
  shows "strptime (display_clock h m pm) = Inr (clock24 h m pm)"
proof -
  let ?hd = "if h < 10 then [''0123456789'' ! h] else two_digit h"
  let ?ap = "if pm then ''PM'' else ''AM''"
  have hd: "list_all is_digit ?hd" by (rule hour_field[OF assms(1,2)])
  have md: "list_all is_digit (two_digit m)"
    using assms(3) by (simp add: two_digit_def digit_facts)
  have nd: "\<not> is_digit CHR '':''" "\<not> is_digit CHR '' ''" by (simp_all add: is_digit_def)
  have d: "display_clock h m pm = ?hd @ CHR '':'' # (two_digit m @ CHR '' '' # ?ap)"
    by (simp add: display_clock_def)
  have 1: "takeWhile is_digit (display_clock h m pm) = ?hd"
    unfolding d by (rule takeWhile_digits[OF hd nd(1)])
  have 2: "dropWhile is_digit (display_clock h m pm) = CHR '':'' # (two_digit m @ CHR '' '' # ?ap)"
    unfolding d by (rule dropWhile_digits[OF hd nd(1)])
  have 3: "takeWhile is_digit (two_digit m @ CHR '' '' # ?ap) = two_digit m"
    by (rule takeWhile_digits[OF md nd(2)])
  have 4: "dropWhile is_digit (two_digit m @ CHR '' '' # ?ap) = CHR '' '' # ?ap"
    by (rule dropWhile_digits[OF md nd(2)])
  have 5: "dropWhile isspace (CHR '' '' # ?ap) = ?ap" by (simp add: isspace_def)
  have m: "strptime_match (display_clock h m pm) = Some (h, m, pm, [])"
    unfolding strptime_match_def Let_def 1 2 list.case 3 4 5
    using hour_field(1,2)[OF assms(1,2)] match_M_two_digit[OF assms(3)] int_of_two_digit[of m]
      assms(3)
    by (cases pm) simp_all
  show ?thesis
    unfolding strptime_def m using assms(1,2) by (auto simp: clock24_def)
qed

lemma split_on_field:
  "sep \<notin> set w \<Longrightarrow> split_on sep (w @ sep # s) word = (word @ w) # split_on sep s []"
  by (induction w arbitrary: word) auto

lemma split_on_last: "sep \<notin> set w \<Longrightarrow> split_on sep w word = [word @ w]"
  by (induction w arbitrary: word) auto

lemma split_on_not_Nil: "split_on sep s word \<noteq> []"
  by (induction s arbitrary: word) auto

lemma flight_time_display_clock:
  assumes "1 \<le> h" and "h \<le> 12" and "m < 60"
    and "departure f = display_clock h m pm @ CHR '' '' # rest"
  shows "flight_time f = Inr (clock24 h m pm)"
proof -
  let ?hd = "if h < 10 then [''0123456789'' ! h] else two_digit h"
  let ?ap = "if pm then ''PM'' else ''AM''"
  let ?hm = "?hd @ '':'' @ two_digit m"
  have "m div 10 < 10" "m mod 10 < 10" using assms(3) by simp_all
  then have "CHR '' '' \<notin> set (two_digit m)"
    using digit_facts(4)[of "m div 10"] digit_facts(4)[of "m mod 10"]
    by (auto simp: two_digit_def)
  then have ns: "CHR '' '' \<notin> set ?hm"
    using hour_field(4)[OF assms(1,2)] by simp
  have ns2: "CHR '' '' \<notin> set ?ap" by simp
  have d: "departure f = ?hm @ CHR '' '' # (?ap @ CHR '' '' # rest)"
    using assms(4) by (simp add: display_clock_def)
  obtain more where parts: "str_split_sep (departure f) CHR '' '' = ?hm # ?ap # more"
    unfolding str_split_sep_def d
    using split_on_field[OF ns, of "?ap @ CHR '' '' # rest" "[]"]
          split_on_field[OF ns2, of rest "[]"]
    by simp
  have "flight_time f = strptime (?hm @ '' '' @ ?ap)"
    by (simp add: flight_time_def parts getitem_def bind_exn_def)
  also have "?hm @ '' '' @ ?ap = display_clock h m pm" by (simp add: display_clock_def)
  finally show ?thesis using strptime_display_clock[OF assms(1-3)] by simp
qed

section \<open>The validator\<close>

lemma first_rejection_checks:
  "first_rejection checks a =
     (if length (origin a) \<noteq> 3 \<or> length (destination a) \<noteq> 3
      then Some ''Origin and destination must be 3 characters.''
      else if length (departure_date a) \<noteq> 10 \<or> departure_date a ! 4 \<noteq> CHR ''-''
              \<or> departure_date a ! 7 \<noteq> CHR ''-''
      then Some ''Departure date must be in YYYY-MM-DD format.''
      else if trip_type a \<noteq> ''one-way'' \<and> trip_type a \<noteq> ''round-trip''
      then Some ''Trip type must be either 'one-way' or 'round-trip'.''
      else if seat a \<noteq> ''economy'' \<and> seat a \<noteq> ''premium-economy'' \<and> seat a \<noteq> ''business''
              \<and> seat a \<noteq> ''first''
      then Some ''Seat type must be either 'economy', 'premium-economy', 'business', or 'first'.''
      else None)"
  by (simp add: first_rejection_def checks_def)

lemma find_append: "find P (xs @ ys) = (case find P xs of None \<Rightarrow> find P ys | Some x \<Rightarrow> Some x)"
  by (induction xs) simp_all

lemma first_rejection_time_checks:
  "first_rejection (time_checks state t) a =
     (case first_rejection checks a of
        Some msg \<Rightarrow> Some msg
      | None \<Rightarrow>
          if state \<noteq> ''before'' \<and> state \<noteq> ''after''
          then Some ''State must be either 'before' or 'after'.''
          else if isl (strptime t)
          then Some ''Invalid time format. Please use HH:MM AM/PM format (e.g., '7:00 PM').''
          else None)"
  by (simp add: first_rejection_def time_checks_def find_append split: option.splits)

lemma first_rejection_None: "first_rejection checks a = None \<longleftrightarrow> valid_query a"
  unfolding first_rejection_checks valid_query_def by auto

lemma strptime_error: "isl (strptime t) \<Longrightarrow> \<exists>d. strptime t = Inl (ValueError d)"
  by (auto simp: strptime_def split: option.splits if_splits prod.splits)

lemma time_try_bad_time:
  "isl (strptime t) \<Longrightarrow> get_time_filtered_flights_try backend state t a
     = Inr [''Invalid time format. Please use HH:MM AM/PM format (e.g., '7:00 PM').'']"
  using strptime_error[of t] by (auto simp: get_time_filtered_flights_try_def)

section \<open>Facts about the samples\<close>

lemmas fmt_eval = format_flight_info_def duration_formatted_def stops_text_def str_int_def
  best_flight_qualifier_def expand_eval

lemma line_a: "format_flight_info flight_a ''JFK'' ''FCO'' = Inr
  ''This flight departs at 9:40 AM on Saturday, April 5th from JFK, local time, and arrives at 11:55 PM on Saturday, April 5th in FCO, local time. The flight is operated by Delta and has a duration of 8 hours and 15 minutes with non-stop in between. And it's price is $1,234 and is considered one of the best options by Google Flights!''"
  by (simp add: flight_a_def fmt_eval)

lemma line_b: "format_flight_info flight_b ''JFK'' ''FCO'' = Inr
  ''This flight departs at 7:00 PM on Saturday, April 5th from JFK, local time, and arrives at 9:05 AM on Sunday, April 6th in FCO, local time. The flight is operated by ITA and has a duration of 8 hours and 5 minutes with 1 stop in between. And it's price is $499 and is an available option!''"
  by (simp add: flight_b_def fmt_eval str_nat.simps)

lemma line_c: "format_flight_info flight_c ''JFK'' ''FCO'' = Inr
  ''This flight departs at 6:15 AM on Saturday, April 5th from JFK, local time, and arrives at 7:30 AM on Sunday, April 6th in FCO, local time. The flight is operated by TAP and has a duration of 19 hours and 15 minutes with 2 stops in between. And it's price is Price unavailable and is an available option!''"
  by (simp add: flight_c_def fmt_eval str_nat.simps)

lemma line_d: "format_flight_info flight_d ''JFK'' ''FCO'' = Inr
  ''This flight departs at 7:00 PM on Saturday, April 5th from JFK, local time, and arrives at 10:10 AM on Sunday, April 6th in FCO, local time. The flight is operated by United and has a duration of 9 hours and 10 minutes with non-stop in between. And it's price is $499 and is considered one of the best options by Google Flights!''"
  by (simp add: flight_d_def fmt_eval)

lemma valid_jfk_fco: "valid_query jfk_fco"
  by (simp add: valid_query_def jfk_fco_def)

lemma sample_formats:
  "formats ''JFK'' ''FCO'' flight_a" "formats ''JFK'' ''FCO'' flight_b"
  "formats ''JFK'' ''FCO'' flight_c" "formats ''JFK'' ''FCO'' flight_d"
  by (simp_all add: formats_def line_a line_b line_c line_d)

lemma formats_e: "formats ''JFK'' ''FCO'' flight_e"
  by (simp add: formats_iff flight_e_def str_split_def isspace_def)

lemma strptime_7pm: "strptime ''7:00 PM'' = Inr (19, 0)"
  by (simp add: strptime_def strptime_match_def is_digit_def isspace_def match_I_def match_M_def
      int_of_digits_def digit_val_def)

lemma departs_sample:
  "flight_time flight_a = Inr (9, 40)" "flight_time flight_b = Inr (19, 0)"
  "flight_time flight_c = Inr (6, 15)" "flight_time flight_d = Inr (19, 0)"
  by (simp_all add: flight_time_def flight_a_def flight_b_def flight_c_def flight_d_def
      str_split_sep_def getitem_def bind_exn_def
      strptime_def strptime_match_def is_digit_def isspace_def match_I_def match_M_def
      int_of_digits_def digit_val_def)

lemma sample_keys:
  "get_price_value float_of_digits flight_a = Finite 1234"
  "get_price_value float_of_digits flight_b = Finite 499"
  "get_price_value float_of_digits flight_c = PosInf"
  "get_price_value float_of_digits flight_d = Finite 499"
  "get_price_value float_of_digits flight_e = PosInf"
  by (simp_all add: get_price_value_def float_of_digits_def remove_char_def is_digit_def
      int_of_digits_def digit_val_def flight_a_def flight_b_def flight_c_def flight_d_def
      flight_e_def)

lemma sample_sorted:
  "stable_sort (get_price_value float_of_digits) [flight_c, flight_a, flight_b, flight_e, flight_d]
     = [flight_b, flight_d, flight_a, flight_c, flight_e]"
  by (simp add: stable_sort_def sample_keys)

section \<open>The claims\<close>

text \<open>
  Claim C1 (cheapest mode), as the code has it. For a validated query whose backend delivers
  a non-empty flight list none of whose price keys is NaN, and with \<open>sorted\<close> keeping
  Python's promise, \<open>get_cheapest_flights\<close> returns its header followed by the lines of the
  first min(30, length) records of the list sorted by \<open>get_price_value\<close>, when these records
  format. The sorted list is the one \<open>stable_sort\<close> computes: it is ascending in the key and
  stable (for every key, the records with that key keep their input order), and it holds the
  records of the input. The key is the price string with every \<open>$\<close> and \<open>,\<close> removed, as
  \<open>float\<close> reads it; a price that is missing, empty, the placeholder \<open>Price unavailable\<close>
  or refused by \<open>float\<close> gets the key \<open>float('inf')\<close>, which no key exceeds and which
  exceeds every finite key.
\<close>

theorem cheapest_sorted:
  fixes py_float :: "string \<Rightarrow> 'r :: linorder pyfloat option"
  assumes "valid_query a" and "backend a = Inr r" and "flights r = Some all_flights"
    and "all_flights \<noteq> []"
    and "sorts_stably py_sorted"
    and "list_all (\<lambda>f. get_price_value py_float f \<noteq> NaN) all_flights"
    and "list_all (formats (origin a) (destination a))
           (take 30 (stable_sort (get_price_value py_float) all_flights))"
  shows "get_cheapest_flights py_float py_sorted backend a =
           Inr (''Here are the cheapest flights for this route and time: ''
                # map (line (origin a) (destination a))
                    (take (min 30 (length all_flights))
                       (stable_sort (get_price_value py_float) all_flights)))
       \<and> py_sorted (get_price_value py_float) all_flights
            = stable_sort (get_price_value py_float) all_flights
       \<and> sorted_wrt (\<lambda>f g. \<not> float_lt (get_price_value py_float g) (get_price_value py_float f))
            (stable_sort (get_price_value py_float) all_flights)
       \<and> (\<forall>k. filter (\<lambda>f. get_price_value py_float f = k)
                  (stable_sort (get_price_value py_float) all_flights)
              = filter (\<lambda>f. get_price_value py_float f = k) all_flights)
       \<and> set (stable_sort (get_price_value py_float) all_flights) = set all_flights
       \<and> length (stable_sort (get_price_value py_float) all_flights) = length all_flights
       \<and> (\<forall>f. \<not> float_lt PosInf (get_price_value py_float f))
       \<and> (\<forall>v. float_lt (Finite v) (PosInf :: 'r pyfloat))
       \<and> (\<forall>f. price f = None \<or> price f = Some [] \<or> price f = Some ''Price unavailable''
               \<or> (\<exists>s. price f = Some s
                       \<and> py_float (remove_char (remove_char s CHR ''$'') CHR '','') = None)
               \<longrightarrow> get_price_value py_float f = PosInf)
       \<and> (\<forall>f s v. price f = Some s \<and> s \<noteq> [] \<and> s \<noteq> ''Price unavailable''
               \<and> py_float (remove_char (remove_char s CHR ''$'') CHR '','') = Some v
               \<longrightarrow> get_price_value py_float f = v)"
proof -
  let ?key = "get_price_value py_float"
  have u: "py_sorted ?key all_flights = stable_sort ?key all_flights"
    by (rule sorts_stably_unique[OF assms(5,6)])
  have tk: "take (min 30 (length all_flights)) (stable_sort ?key all_flights)
              = take 30 (stable_sort ?key all_flights)"
    using length_stable_sort[of ?key all_flights] by (simp add: min_def)
  have 1: "get_cheapest_flights py_float py_sorted backend a =
           Inr (''Here are the cheapest flights for this route and time: ''
                # map (line (origin a) (destination a))
                    (take (min 30 (length all_flights)) (stable_sort ?key all_flights)))"
    unfolding tk
    using cheapest_valid[OF assms(1), of py_float py_sorted backend]
          cheapest_try_flights[where backend=backend and a=a and py_float=py_float
            and py_sorted=py_sorted, OF assms(2-4)]
          format_loop_ok[OF assms(7), of "[]"]
    by (simp add: bind_exn_def u)
  have 2: "sorted_wrt (\<lambda>f g. \<not> float_lt (?key g) (?key f)) (stable_sort ?key all_flights)"
    using ascending_stable_sort[OF assms(6)] by (simp add: ascending_def)
  have 3: "filter (\<lambda>f. ?key f = k) (stable_sort ?key all_flights)
             = filter (\<lambda>f. ?key f = k) all_flights" for k
    using stable_stable_sort[of ?key all_flights] by (simp add: stable_def)
  have 4: "set (stable_sort ?key all_flights) = set all_flights"
          "length (stable_sort ?key all_flights) = length all_flights"
    by (simp_all add: set_stable_sort length_stable_sort)
  have 5: "\<not> float_lt PosInf (?key f)" for f by (rule float_lt_PosInf)
  have 6: "float_lt (Finite v) (PosInf :: 'r pyfloat)" for v by simp
  have 7: "?key f = PosInf"
    if "price f = None \<or> price f = Some [] \<or> price f = Some ''Price unavailable''
               \<or> (\<exists>s. price f = Some s
                       \<and> py_float (remove_char (remove_char s CHR ''$'') CHR '','') = None)" for f
    using that by (rule get_price_value_absent)
  have 8: "?key f = v"
    if "price f = Some s \<and> s \<noteq> [] \<and> s \<noteq> ''Price unavailable''
               \<and> py_float (remove_char (remove_char s CHR ''$'') CHR '','') = Some v" for f s v
    using that get_price_value_parsed[of f s py_float v] by simp
  show ?thesis using 1 u 2 3 4 5 6 7 8 by blast
qed

text \<open>
  Claim C1 at a sample: five flights priced unavailable, $1,234, $499, missing and $499 come
  out as the two $499 flights in input order, then $1,234, then the two without a price in
  input order.
\<close>

theorem cheapest_sorted_witness:
  "get_cheapest_flights float_of_digits stable_sort
     (returns [flight_c, flight_a, flight_b, flight_e, flight_d]) jfk_fco =
     Inr [''Here are the cheapest flights for this route and time: '',
          line ''JFK'' ''FCO'' flight_b, line ''JFK'' ''FCO'' flight_d, line ''JFK'' ''FCO'' flight_a,
          line ''JFK'' ''FCO'' flight_c, line ''JFK'' ''FCO'' flight_e]"
proof -
  let ?fs = "[flight_c, flight_a, flight_b, flight_e, flight_d]"
  have r: "returns ?fs jfk_fco = Inr \<lparr>current_price = ''typical'', flights = Some ?fs\<rparr>"
    by (simp add: returns_def)
  have f: "flights \<lparr>current_price = ''typical'', flights = Some ?fs\<rparr> = Some ?fs" by simp
  have od: "origin jfk_fco = ''JFK''" "destination jfk_fco = ''FCO''" by (simp_all add: jfk_fco_def)
  have ne: "?fs \<noteq> []" by simp
  have nn: "list_all (\<lambda>f. get_price_value float_of_digits f \<noteq> NaN) ?fs"
    by (simp add: sample_keys)
  have ok: "list_all (formats (origin jfk_fco) (destination jfk_fco))
              (take 30 (stable_sort (get_price_value float_of_digits) ?fs))"
    unfolding sample_sorted od by (simp add: sample_formats formats_e)
  note w = cheapest_sorted[where backend="returns ?fs" and a=jfk_fco and py_float=float_of_digits
      and py_sorted=stable_sort, OF valid_jfk_fco r f ne sorts_stably_stable_sort nn ok,
      unfolded sample_sorted od]
  show ?thesis using w by simp
qed

text \<open>
  Claim C1 as stated fails on the empty list: the tool answers with the no-flights message,
  not with its header followed by zero records.
\<close>

theorem cheapest_empty_list:
  "get_cheapest_flights float_of_digits stable_sort (returns []) jfk_fco
     = Inr [''No flights found for the specified route and dates.'']
   \<and> get_cheapest_flights float_of_digits stable_sort (returns []) jfk_fco
     \<noteq> Inr (''Here are the cheapest flights for this route and time: ''
             # map (line ''JFK'' ''FCO'')
                 (take (min 30 (length ([] :: flight list)))
                    (stable_sort (get_price_value float_of_digits) [])))"
  by (simp add: cheapest_valid[OF valid_jfk_fco] get_cheapest_flights_try_def returns_def bind_exn_def)

text \<open>
  Claim C2 (time-windowed mode), as the code has it. A departure string that starts with a
  displayed clock time \<open>H:MM AM\<close> or \<open>H:MM PM\<close> and a blank is read by the loop as that
  time of day, hour and minute, and times compare by hour, then minute. When every record's
  departure string parses as a clock time, the selection loop with state \<open>before\<close> keeps
  exactly the records departing strictly before the target time and with state \<open>after\<close>
  exactly those departing at or after it, in input order; a record departing exactly at the
  target is in the \<open>after\<close> selection and not in the \<open>before\<close> selection. On a validated
  query with a non-empty flight list, the tool returns its header followed by the lines of
  the first 30 selected records, when the selection is not empty and these records format,
  and the no-flights message naming the state and the target when the selection is empty.
  When a departure string does not parse, nothing is selected: the tool returns a single
  message.
\<close>

theorem time_filter_selection:
  assumes "list_all (\<lambda>f. \<not> isl (flight_time f)) all_flights"
  shows "valid_flights_loop ''before'' target_time all_flights []
           = Inr (filter (\<lambda>f. departs f < target_time) all_flights)
       \<and> valid_flights_loop ''after'' target_time all_flights []
           = Inr (filter (\<lambda>f. target_time \<le> departs f) all_flights)
       \<and> (f \<in> set all_flights \<and> departs f = target_time \<longrightarrow>
            f \<in> set (filter (\<lambda>f. target_time \<le> departs f) all_flights)
          \<and> f \<notin> set (filter (\<lambda>f. departs f < target_time) all_flights))
       \<and> (1 \<le> h \<and> h \<le> 12 \<and> m < 60 \<and> departure g = display_clock h m pm @ CHR '' '' # rest \<longrightarrow>
            flight_time g = Inr (clock24 h m pm) \<and> departs g = (h mod 12 + (if pm then 12 else 0), m))
       \<and> (((ha, ma) :: time) < (hb, mb) \<longleftrightarrow> ha < hb \<or> (ha = hb \<and> ma < mb))
       \<and> (valid_query a \<and> backend a = Inr r \<and> flights r = Some all_flights \<and> all_flights \<noteq> []
            \<and> strptime target_time_str = Inr target_time \<longrightarrow>
            (filter (\<lambda>f. departs f < target_time) all_flights \<noteq> []
             \<and> list_all (formats (origin a) (destination a))
                  (take 30 (filter (\<lambda>f. departs f < target_time) all_flights)) \<longrightarrow>
             get_time_filtered_flights backend ''before'' target_time_str a
               = Inr ((''Here are the time-filtered flights before '' @ target_time_str @ '': '')
                      # map (line (origin a) (destination a))
                          (take 30 (filter (\<lambda>f. departs f < target_time) all_flights))))
          \<and> (filter (\<lambda>f. target_time \<le> departs f) all_flights \<noteq> []
             \<and> list_all (formats (origin a) (destination a))
                  (take 30 (filter (\<lambda>f. target_time \<le> departs f) all_flights)) \<longrightarrow>
             get_time_filtered_flights backend ''after'' target_time_str a
               = Inr ((''Here are the time-filtered flights on or after '' @ target_time_str @ '': '')
                      # map (line (origin a) (destination a))
                          (take 30 (filter (\<lambda>f. target_time \<le> departs f) all_flights))))
          \<and> (filter (\<lambda>f. departs f < target_time) all_flights = [] \<longrightarrow>
             get_time_filtered_flights backend ''before'' target_time_str a
               = Inr [''No flights found before '' @ target_time_str
                      @ '' for the specified route and dates.''])
          \<and> (filter (\<lambda>f. target_time \<le> departs f) all_flights = [] \<longrightarrow>
             get_time_filtered_flights backend ''after'' target_time_str a
               = Inr [''No flights found after '' @ target_time_str
                      @ '' for the specified route and dates.'']))
       \<and> (valid_query a \<and> backend a = Inr r \<and> flights r = Some bad_flights
            \<and> \<not> list_all (\<lambda>f. \<not> isl (flight_time f)) bad_flights
            \<and> strptime target_time_str = Inr target_time
            \<and> (state = ''before'' \<or> state = ''after'') \<longrightarrow>
            (\<exists>msg. get_time_filtered_flights backend state target_time_str a = Inr [msg]))"
proof -
  let ?before = "filter (\<lambda>f. departs f < target_time) all_flights"
  let ?after = "filter (\<lambda>f. target_time \<le> departs f) all_flights"
  have b: "valid_flights_loop ''before'' target_time all_flights [] = Inr ?before"
    using valid_flights_loop_filter[OF assms, of "''before''" target_time "[]"] by simp
  have af: "valid_flights_loop ''after'' target_time all_flights [] = Inr ?after"
    using valid_flights_loop_filter[OF assms, of "''after''" target_time "[]"] by simp
  have tb: "get_time_filtered_flights backend ''before'' target_time_str a
               = Inr ((''Here are the time-filtered flights before '' @ target_time_str @ '': '')
                      # map (line (origin a) (destination a)) (take 30 ?before))"
    if v: "valid_query a" and r: "backend a = Inr r" and fl: "flights r = Some all_flights"
      and ne: "all_flights \<noteq> []" and p: "strptime target_time_str = Inr target_time"
      and sel: "?before \<noteq> []"
      and ok: "list_all (formats (origin a) (destination a)) (take 30 ?before)"
    using time_valid[OF v, of "''before''" backend target_time_str]
          time_try_flights[where backend=backend and a=a and state="''before''", OF p r fl ne]
          format_loop_ok[OF ok, of "[]"] sel
    by (simp add: b bind_exn_def)
  have ta: "get_time_filtered_flights backend ''after'' target_time_str a
               = Inr ((''Here are the time-filtered flights on or after '' @ target_time_str @ '': '')
                      # map (line (origin a) (destination a)) (take 30 ?after))"
    if v: "valid_query a" and r: "backend a = Inr r" and fl: "flights r = Some all_flights"
      and ne: "all_flights \<noteq> []" and p: "strptime target_time_str = Inr target_time"
      and sel: "?after \<noteq> []"
      and ok: "list_all (formats (origin a) (destination a)) (take 30 ?after)"
    using time_valid[OF v, of "''after''" backend target_time_str]
          time_try_flights[where backend=backend and a=a and state="''after''", OF p r fl ne]
          format_loop_ok[OF ok, of "[]"] sel
    by (simp add: af bind_exn_def)
  have eb: "get_time_filtered_flights backend ''before'' target_time_str a
               = Inr [''No flights found before '' @ target_time_str
                      @ '' for the specified route and dates.'']"
    if v: "valid_query a" and r: "backend a = Inr r" and fl: "flights r = Some all_flights"
      and ne: "all_flights \<noteq> []" and p: "strptime target_time_str = Inr target_time"
      and sel: "?before = []"
    using time_valid[OF v, of "''before''" backend target_time_str]
          time_try_flights[where backend=backend and a=a and state="''before''", OF p r fl ne]
          sel
    by (simp add: b bind_exn_def)
  have ea: "get_time_filtered_flights backend ''after'' target_time_str a
               = Inr [''No flights found after '' @ target_time_str
                      @ '' for the specified route and dates.'']"
    if v: "valid_query a" and r: "backend a = Inr r" and fl: "flights r = Some all_flights"
      and ne: "all_flights \<noteq> []" and p: "strptime target_time_str = Inr target_time"
      and sel: "?after = []"
    using time_valid[OF v, of "''after''" backend target_time_str]
          time_try_flights[where backend=backend and a=a and state="''after''", OF p r fl ne]
          sel
    by (simp add: af bind_exn_def)
  have m: "f \<in> set all_flights \<and> departs f = target_time \<longrightarrow> f \<in> set ?after \<and> f \<notin> set ?before"
    by auto
  have pin: "flight_time g = Inr (clock24 h m pm)
             \<and> departs g = (h mod 12 + (if pm then 12 else 0), m)"
    if "1 \<le> h \<and> h \<le> 12 \<and> m < 60 \<and> departure g = display_clock h m pm @ CHR '' '' # rest"
    using that flight_time_display_clock[of h m g pm rest] by (simp add: departs_def clock24_def)
  have ord: "((ha, ma) :: time) < (hb, mb) \<longleftrightarrow> ha < hb \<or> (ha = hb \<and> ma < mb)"
    by (auto simp: less_prod_def)
  have bad: "\<exists>msg. get_time_filtered_flights backend state target_time_str a = Inr [msg]"
    if v: "valid_query a" and r: "backend a = Inr r" and fl: "flights r = Some bad_flights"
      and np: "\<not> list_all (\<lambda>f. \<not> isl (flight_time f)) bad_flights"
      and p: "strptime target_time_str = Inr target_time"
      and s: "state = ''before'' \<or> state = ''after''"
  proof -
    have ne: "bad_flights \<noteq> []" using np by auto
    obtain e where e: "valid_flights_loop state target_time bad_flights [] = Inl e"
      using valid_flights_loop_fail[OF np, of state target_time "[]"]
      by (cases "valid_flights_loop state target_time bad_flights []") simp_all
    have "get_time_filtered_flights_try backend state target_time_str a = Inl e"
      using time_try_flights[where backend=backend and a=a and state=state, OF p r fl ne] e
      by (simp add: bind_exn_def)
    then have "get_time_filtered_flights backend state target_time_str a = except_clauses e"
      using time_valid[OF v s, of backend target_time_str] by simp
    then show ?thesis
      using except_clauses_caught[OF valid_flights_loop_raises[OF e]] by simp
  qed
  show ?thesis using b af m pin ord tb ta eb ea bad by blast
qed

text \<open>
  Claim C2 at a sample with target 9:40 AM: the flight departing at 6:15 AM is selected by
  \<open>before\<close>; the flight departing at 9:40 AM, read as hour 9 and minute 40, and the two
  departing at 7:00 PM are selected by \<open>after\<close>.
\<close>

theorem time_filter_selection_witness:
  "flight_time flight_a = Inr (9, 40)
   \<and> valid_flights_loop ''before'' (9, 40) [flight_a, flight_b, flight_c, flight_d] []
     = Inr [flight_c]
   \<and> valid_flights_loop ''after'' (9, 40) [flight_a, flight_b, flight_c, flight_d] []
     = Inr [flight_a, flight_b, flight_d]
   \<and> get_time_filtered_flights (returns [flight_a, flight_b, flight_c, flight_d])
        ''after'' ''9:40 AM'' jfk_fco
     = Inr [''Here are the time-filtered flights on or after 9:40 AM: '',
            line ''JFK'' ''FCO'' flight_a, line ''JFK'' ''FCO'' flight_b,
            line ''JFK'' ''FCO'' flight_d]
   \<and> get_time_filtered_flights (returns [flight_a, flight_b, flight_c, flight_d])
        ''before'' ''9:40 AM'' jfk_fco
     = Inr [''Here are the time-filtered flights before 9:40 AM: '',
            line ''JFK'' ''FCO'' flight_c]"
proof -
  let ?fs = "[flight_a, flight_b, flight_c, flight_d]"
  have ok: "list_all (\<lambda>f. \<not> isl (flight_time f)) ?fs" by (simp add: departs_sample)
  have d: "departs flight_a = (9, 40)" "departs flight_b = (19, 0)"
          "departs flight_c = (6, 15)" "departs flight_d = (19, 0)"
    by (simp_all add: departs_def departs_sample)
  have sel: "filter (\<lambda>f. departs f < (9, 40)) ?fs = [flight_c]"
            "filter (\<lambda>f. (9, 40) \<le> departs f) ?fs = [flight_a, flight_b, flight_d]"
    by (simp_all add: d)
  have r: "returns ?fs jfk_fco = Inr \<lparr>current_price = ''typical'', flights = Some ?fs\<rparr>"
    by (simp add: returns_def)
  have od: "origin jfk_fco = ''JFK''" "destination jfk_fco = ''FCO''" by (simp_all add: jfk_fco_def)
  have dep: "departure flight_a = display_clock 9 40 False @ CHR '' '' # ''on Sat, Apr 5''"
    by (simp add: flight_a_def display_clock_def two_digit_def)
  have c: "clock24 9 40 False = (9, 40)" by (simp add: clock24_def)
  have p: "strptime ''9:40 AM'' = Inr (9, 40)"
    by (simp add: strptime_def strptime_match_def is_digit_def isspace_def match_I_def match_M_def
        int_of_digits_def digit_val_def)
  note w = time_filter_selection[where all_flights="?fs" and target_time="(9, 40)" and f=flight_a
      and a=jfk_fco and backend="returns ?fs" and target_time_str="''9:40 AM''"
      and r="\<lparr>current_price = ''typical'', flights = Some ?fs\<rparr>"
      and h=9 and m=40 and pm=False and g=flight_a and rest="''on Sat, Apr 5''"
      and ha=0 and ma=0 and hb=0 and mb=0 and bad_flights="[]" and state="[]",
      OF ok, unfolded sel od c]
  show ?thesis using w r valid_jfk_fco p dep
    by (simp add: sample_formats del: valid_flights_loop.simps)
qed

text \<open>
  Claim C2 as stated fails beyond 30 selected records: of 31 flights that all depart at
  7:00 PM, the target time, the tool with state \<open>after\<close> returns the lines of the first 30
  only; the last record departs exactly at the target and is not in the result.
\<close>

theorem time_filter_cap_drops_boundary:
  "flight_time flight_d = Inr (19, 0)
   \<and> strptime ''7:00 PM'' = Inr (19, 0)
   \<and> get_time_filtered_flights (returns (replicate 30 flight_b @ [flight_d]))
        ''after'' ''7:00 PM'' jfk_fco
     = Inr (''Here are the time-filtered flights on or after 7:00 PM: ''
            # replicate 30 (line ''JFK'' ''FCO'' flight_b))
   \<and> line ''JFK'' ''FCO'' flight_d \<notin> set (replicate 30 (line ''JFK'' ''FCO'' flight_b))"
proof -
  let ?fs = "replicate 30 flight_b @ [flight_d]"
  have ok: "list_all (\<lambda>f. \<not> isl (flight_time f)) ?fs"
    by (simp add: list_all_iff departs_sample)
  have d: "departs flight_b = (19, 0)" "departs flight_d = (19, 0)"
    by (simp_all add: departs_def departs_sample)
  have sel: "valid_flights_loop ''after'' (19, 0) ?fs [] = Inr ?fs"
    using valid_flights_loop_filter[OF ok, of "''after''" "(19, 0)" "[]"] by (simp add: d)
  have r: "returns ?fs jfk_fco = Inr \<lparr>current_price = ''typical'', flights = Some ?fs\<rparr>"
    by (simp add: returns_def)
  have f: "flights \<lparr>current_price = ''typical'', flights = Some ?fs\<rparr> = Some ?fs" by simp
  have ne: "?fs \<noteq> []" by simp
  have od: "origin jfk_fco = ''JFK''" "destination jfk_fco = ''FCO''" by (simp_all add: jfk_fco_def)
  have fmt: "list_all (formats ''JFK'' ''FCO'') (replicate 30 flight_b)"
    by (simp add: list_all_iff sample_formats)
  have t: "get_time_filtered_flights_try (returns ?fs) ''after'' ''7:00 PM'' jfk_fco
             = Inr (''Here are the time-filtered flights on or after 7:00 PM: ''
                    # replicate 30 (line ''JFK'' ''FCO'' flight_b))"
    using time_try_flights[where backend="returns ?fs" and a=jfk_fco and state="''after''",
        OF strptime_7pm r f ne] format_loop_ok[OF fmt, of "[]"]
    by (simp add: sel bind_exn_def od)
  have l: "line ''JFK'' ''FCO'' flight_d \<noteq> line ''JFK'' ''FCO'' flight_b"
    by (simp add: line_def line_b line_d)
  show ?thesis
    using time_valid[OF valid_jfk_fco, of "''after''" "returns ?fs" "''7:00 PM''"] l
    by (simp add: t departs_sample strptime_7pm)
qed

text \<open>
  Claim C3 (best mode), as the code has it. For a validated query whose backend delivers a
  non-empty flight list: if no record has the best flag, the result is the single no-best-flights
  message; otherwise, when the first 30 flagged records format, the result is the header
  followed by the lines of exactly the flagged records, in input order, capped at 30; and
  when one of them does not format, the result is a single message.
\<close>

theorem best_flights_selection:
  assumes "valid_query a" and "backend a = Inr r" and "flights r = Some all_flights"
    and "all_flights \<noteq> []"
  shows "(filter is_best all_flights = [] \<longrightarrow>
            get_best_flights backend a = Inr [''No best flights found for the specified route and dates.''])
       \<and> (filter is_best all_flights \<noteq> []
            \<and> list_all (formats (origin a) (destination a)) (take 30 (filter is_best all_flights)) \<longrightarrow>
            get_best_flights backend a =
              Inr (''Here are the best flights for this route and time: ''
                   # map (line (origin a) (destination a)) (take 30 (filter is_best all_flights))))
       \<and> (filter is_best all_flights \<noteq> []
            \<and> \<not> list_all (formats (origin a) (destination a)) (take 30 (filter is_best all_flights)) \<longrightarrow>
            (\<exists>msg. get_best_flights backend a = Inr [msg]))"
proof -
  let ?best = "filter is_best all_flights"
  let ?loop = "format_loop (take 30 ?best) (origin a) (destination a) []"
  have t: "get_best_flights backend a =
     (case (if ?best = [] then Inr [''No best flights found for the specified route and dates.'']
            else bind_exn ?loop
               (\<lambda>flight_info. Inr (''Here are the best flights for this route and time: '' # flight_info)))
      of Inl e \<Rightarrow> except_clauses e | Inr out \<Rightarrow> Inr out)"
    using best_valid[OF assms(1)] best_try_flights[where backend=backend and a=a, OF assms(2-4)] by simp
  have 1: "?best = [] \<Longrightarrow> get_best_flights backend a = Inr [''No best flights found for the specified route and dates.'']"
    using t by simp
  have 2: "get_best_flights backend a = Inr (''Here are the best flights for this route and time: ''
              # map (line (origin a) (destination a)) (take 30 ?best))"
    if "?best \<noteq> []" and "list_all (formats (origin a) (destination a)) (take 30 ?best)"
    using t that format_loop_ok[OF that(2), of "[]"] by (simp add: bind_exn_def)
  have 3: "\<exists>msg. get_best_flights backend a = Inr [msg]"
    if ne: "?best \<noteq> []" and bad: "\<not> list_all (formats (origin a) (destination a)) (take 30 ?best)"
  proof -
    obtain e where e: "?loop = Inl e" using format_loop_fail[OF bad, of "[]"] by (cases ?loop) simp_all
    then have "get_best_flights backend a = except_clauses e" using t ne by (simp add: bind_exn_def)
    then show ?thesis using except_clauses_caught[OF format_loop_raises[OF e]] by simp
  qed
  show ?thesis using 1 2 3 by blast
qed

text \<open>
  Claim C3 at a sample: of four flights the first and the last are flagged and are the two
  returned; a list with no flagged flight gives the no-best-flights message.
\<close>

theorem best_flights_selection_witness:
  "get_best_flights (returns [flight_a, flight_b, flight_c, flight_d]) jfk_fco =
     Inr [''Here are the best flights for this route and time: '',
      projr (format_flight_info flight_a ''JFK'' ''FCO''),
      projr (format_flight_info flight_d ''JFK'' ''FCO'')]
   \<and> get_best_flights (returns [flight_b, flight_c]) jfk_fco =
     Inr [''No best flights found for the specified route and dates.'']"
proof -
  have r: "returns fs jfk_fco = Inr \<lparr>current_price = ''typical'', flights = Some fs\<rparr>" for fs
    by (simp add: returns_def)
  have f: "flights \<lparr>current_price = ''typical'', flights = Some fs\<rparr> = Some fs" for fs by simp
  have od: "origin jfk_fco = ''JFK''" "destination jfk_fco = ''FCO''" by (simp_all add: jfk_fco_def)
  have b: "filter is_best [flight_a, flight_b, flight_c, flight_d] = [flight_a, flight_d]"
          "filter is_best [flight_b, flight_c] = []"
    by (simp_all add: flight_a_def flight_b_def flight_c_def flight_d_def)
  have ne: "[flight_a, flight_b, flight_c, flight_d] \<noteq> []" "[flight_b, flight_c] \<noteq> []" by simp_all
  note w1 = best_flights_selection[where backend="returns [flight_a, flight_b, flight_c, flight_d]"
      and a=jfk_fco, OF valid_jfk_fco r f ne(1), unfolded b od]
  note w2 = best_flights_selection[where backend="returns [flight_b, flight_c]"
      and a=jfk_fco, OF valid_jfk_fco r f ne(2), unfolded b od]
  show ?thesis using w1 w2 by (simp add: sample_formats line_def)
qed

text \<open>
  Claim C3 as stated fails on the empty list: no record has the best flag, and the result is
  the no-flights message, not the no-best-flights message.
\<close>

theorem best_flights_empty_list:
  "\<not> list_ex is_best [] \<and>
   get_best_flights (returns []) jfk_fco = Inr [''No flights found for the specified route and dates.''] \<and>
   get_best_flights (returns []) jfk_fco \<noteq> Inr [''No best flights found for the specified route and dates.'']"
  by (simp add: best_valid[OF valid_jfk_fco] get_best_flights_try_def returns_def bind_exn_def)

text \<open>
  Claim C4 (duration expansion), as the code has it. A duration string is rewritten to
  \<open>h hours and m minutes\<close> exactly when it has four whitespace-separated tokens, \<open>h\<close> the first
  and \<open>m\<close> the third, whatever the second and fourth are; every other string is returned
  unchanged, and a rewritten string always differs from the input. Strings of the
  specification's pattern are among those rewritten.
\<close>

theorem duration_expansion:
  "duration_formatted s =
     (case str_split s of
        [h, w1, m, w2] \<Rightarrow> h @ '' hours and '' @ m @ '' minutes''
      | _ \<Rightarrow> s)
   \<and> (duration_formatted s \<noteq> s \<longleftrightarrow> length (str_split s) = 4)
   \<and> (spec_duration_pattern s \<longrightarrow> duration_formatted s \<noteq> s)
   \<and> duration_formatted ''4 hours 30 minutes'' = ''4 hours and 30 minutes''
   \<and> duration_formatted ''4h30m'' = ''4h30m''"
proof -
  have p: "length (str_split s) = 4" if "spec_duration_pattern s"
    using that by (auto simp: spec_duration_pattern_def split: list.splits)
  have e1: "duration_formatted ''4 hours 30 minutes'' = ''4 hours and 30 minutes''"
    by (simp add: duration_formatted_def split_eval)
  have e2: "duration_formatted ''4h30m'' = ''4h30m''"
    by (simp add: duration_formatted_def split_eval)
  show ?thesis using duration_formatted_cases[of s] duration_changed_iff[of s] p e1 e2 by blast
qed

text \<open>
  Claim C4 at a sample of the specification's pattern.
\<close>

theorem duration_expansion_witness:
  "spec_duration_pattern ''12 hours 5 minutes''
   \<and> duration_formatted ''12 hours 5 minutes'' = ''12 hours and 5 minutes''
   \<and> duration_formatted ''12 hours 5 minutes'' \<noteq> ''12 hours 5 minutes''"
proof -
  have p: "spec_duration_pattern ''12 hours 5 minutes''"
    by (simp add: spec_duration_pattern_def split_eval)
  have t: "str_split ''12 hours 5 minutes'' = [''12'', ''hours'', ''5'', ''minutes'']"
    by (simp add: split_eval)
  show ?thesis using duration_expansion[of "''12 hours 5 minutes''"] p by (simp add: t)
qed

text \<open>
  Claim C4 as stated fails: \<open>4 hr 30 min\<close> is not of the pattern \<open>h hours m minutes\<close> and is
  rewritten all the same.
\<close>

theorem duration_expansion_ignores_words:
  "\<not> spec_duration_pattern ''4 hr 30 min''
   \<and> duration_formatted ''4 hr 30 min'' = ''4 hours and 30 minutes''
   \<and> duration_formatted ''4 hr 30 min'' \<noteq> ''4 hr 30 min''"
  by (simp add: spec_duration_pattern_def duration_formatted_def split_eval)

text \<open>
  Claim C5 (date expansion), as the code has it. A display string with at least six
  whitespace-separated tokens \<open>t0 t1 t2 t3 t4 t5\<close> expands to \<open>t0 t1 on D, M t5\<close> followed by
  the ordinal suffix of \<open>t5\<close>, where \<open>D\<close> is \<open>t3\<close> without trailing commas looked up in the
  weekday table and \<open>M\<close> is \<open>t4\<close> looked up in the month table (an unknown key stands for
  itself); a string with fewer than six tokens raises \<open>IndexError\<close>. The suffix of a day
  number is \<open>th\<close> when it ends in 11, 12 or 13 or does not end in 1, 2 or 3, else \<open>st\<close>,
  \<open>nd\<close>, \<open>rd\<close>. So \<open>9:40 AM on Sat, Apr 5\<close> expands to \<open>9:40 AM on Saturday, April 5th\<close>.
\<close>

theorem expand_date_six_tokens:
  "(str_split s = t0 # t1 # t2 # t3 # t4 # t5 # rest \<longrightarrow>
      expand_date s =
        Inr (t0 @ '' '' @ t1 @ '' on ''
             @ dict_get day_map (rstrip t3 CHR '','') (rstrip t3 CHR '','') @ '', ''
             @ dict_get month_map t4 t4 @ '' '' @ t5 @ day_suffix t5))
   \<and> (length (str_split s) < 6 \<longrightarrow>
      expand_date s = Inl (OtherException ''list index out of range''))
   \<and> day_suffix (str_nat n) =
       (if n mod 100 \<in> {11, 12, 13} then ''th''
        else if n mod 10 = 1 then ''st''
        else if n mod 10 = 2 then ''nd''
        else if n mod 10 = 3 then ''rd''
        else ''th'')
   \<and> map (\<lambda>k. dict_get day_map k k) [''Mon'', ''Tue'', ''Wed'', ''Thu'', ''Fri'', ''Sat'', ''Sun'']
       = [''Monday'', ''Tuesday'', ''Wednesday'', ''Thursday'', ''Friday'', ''Saturday'', ''Sunday'']
   \<and> map (\<lambda>k. dict_get month_map k k)
         [''Jan'', ''Feb'', ''Mar'', ''Apr'', ''May'', ''Jun'',
          ''Jul'', ''Aug'', ''Sep'', ''Oct'', ''Nov'', ''Dec'']
       = [''January'', ''February'', ''March'', ''April'', ''May'', ''June'',
          ''July'', ''August'', ''September'', ''October'', ''November'', ''December'']
   \<and> expand_date ''9:40 AM on Sat, Apr 5'' = Inr ''9:40 AM on Saturday, April 5th''
   \<and> expand_date ''2:15 PM on Mon, Nov 22'' = Inr ''2:15 PM on Monday, November 22nd''"
proof -
  have a: "expand_date ''9:40 AM on Sat, Apr 5'' = Inr ''9:40 AM on Saturday, April 5th''"
    by (simp add: expand_eval)
  have b: "expand_date ''2:15 PM on Mon, Nov 22'' = Inr ''2:15 PM on Monday, November 22nd''"
    by (simp add: expand_eval)
  show ?thesis
    using expand_date_six[of s t0 t1 t2 t3 t4 t5 rest] expand_date_short[of s]
      day_suffix_number[of n] lookup_tables a b
    by blast
qed

text \<open>
  Claim C5 at two samples: a six-token string, and a string with too few tokens.
\<close>

theorem expand_date_six_tokens_witness:
  "expand_date ''11:05 PM at Thu, Aug 13'' = Inr ''11:05 PM on Thursday, August 13th''
   \<and> expand_date ''11:05 PM'' = Inl (OtherException ''list index out of range'')"
proof -
  have t: "str_split ''11:05 PM at Thu, Aug 13'' = [''11:05'', ''PM'', ''at'', ''Thu,'', ''Aug'', ''13'']"
    by (simp add: split_eval)
  have u: "length (str_split ''11:05 PM'') < 6" by (simp add: split_eval)
  have 1: "expand_date ''11:05 PM at Thu, Aug 13'' = Inr ''11:05 PM on Thursday, August 13th''"
    using expand_date_six_tokens[where s="''11:05 PM at Thu, Aug 13''" and ?t0.0="''11:05''"
        and ?t1.0="''PM''" and ?t2.0="''at''" and ?t3.0="''Thu,''" and ?t4.0="''Aug''" and ?t5.0="''13''"
        and rest="[]" and n=0] t
    by (simp add: rstrip_def dict_get_def day_map_def month_map_def day_suffix_def
        endswith_any_def endswith_def)
  have 2: "expand_date ''11:05 PM'' = Inl (OtherException ''list index out of range'')"
    using expand_date_six_tokens[where s="''11:05 PM''" and ?t0.0="[]"
        and ?t1.0="[]" and ?t2.0="[]" and ?t3.0="[]" and ?t4.0="[]" and ?t5.0="[]"
        and rest="[]" and n=0] u
    by simp
  show ?thesis using 1 2 by simp
qed

text \<open>
  Claim C5 as stated fails: the five-token strings of the specification, \<open>9:40 AM Sat, Apr 5\<close>
  and \<open>2:15 PM Mon, Nov 22\<close>, raise \<open>IndexError\<close> in \<open>expand_date\<close>.
\<close>

theorem expand_date_five_tokens:
  "expand_date ''9:40 AM Sat, Apr 5'' = Inl (OtherException ''list index out of range'')
   \<and> expand_date ''9:40 AM Sat, Apr 5'' \<noteq> Inr ''9:40 AM on Saturday, April 5th''
   \<and> expand_date ''2:15 PM Mon, Nov 22'' = Inl (OtherException ''list index out of range'')
   \<and> expand_date ''2:15 PM Mon, Nov 22'' \<noteq> Inr ''2:15 PM on Monday, November 22nd''"
  by (simp add: expand_eval)

text \<open>
  Claim C6 (parameter checks). Whenever a check of the validator fails, each tool returns
  exactly the one-element list holding the message of the first failed check, in the order
  origin length, destination length, date shape, trip type, seat and, for the time-window
  tool, state and target time; the result does not depend on the backend, which is not
  called. An origin \<open>JF\<close> gives the three-characters message, a departure date \<open>2025-1-5\<close>
  the date-format message.
\<close>

theorem validation_order:
  "(first_rejection checks a = Some msg \<longrightarrow>
      get_general_flights_info backend a n_flights = Inr [msg]
    \<and> get_cheapest_flights py_float py_sorted backend a = Inr [msg]
    \<and> get_best_flights backend a = Inr [msg])
   \<and> (first_rejection (time_checks state target_time_str) a = Some msg \<longrightarrow>
      get_time_filtered_flights backend state target_time_str a = Inr [msg])
   \<and> first_rejection checks (a\<lparr>origin := ''JF''\<rparr>)
        = Some ''Origin and destination must be 3 characters.''
   \<and> (length (origin a) = 3 \<and> length (destination a) = 3 \<longrightarrow>
        first_rejection checks (a\<lparr>departure_date := ''2025-1-5''\<rparr>)
          = Some ''Departure date must be in YYYY-MM-DD format.'')"
proof -
  have 1: "get_general_flights_info backend a n_flights = Inr [msg]"
          "get_cheapest_flights py_float py_sorted backend a = Inr [msg]"
          "get_best_flights backend a = Inr [msg]"
    if "first_rejection checks a = Some msg"
    using that unfolding first_rejection_checks
    by (auto simp add: get_general_flights_info_def get_cheapest_flights_def get_best_flights_def
        split: if_splits)
  have 2: "get_time_filtered_flights backend state target_time_str a = Inr [msg]"
    if r: "first_rejection (time_checks state target_time_str) a = Some msg"
  proof (cases "first_rejection checks a")
    case (Some m)
    then have "m = msg" using r by (simp add: first_rejection_time_checks)
    then show ?thesis using Some unfolding first_rejection_checks
      by (auto simp add: get_time_filtered_flights_def split: if_splits)
  next
    case None
    then have v: "valid_query a" by (simp add: first_rejection_None)
    show ?thesis
    proof (cases "state \<noteq> ''before'' \<and> state \<noteq> ''after''")
      case True
      then have "msg = ''State must be either 'before' or 'after'.''"
        using r None by (simp add: first_rejection_time_checks)
      then show ?thesis using v True
        by (auto simp add: valid_query_def get_time_filtered_flights_def)
    next
      case False
      then have s: "state = ''before'' \<or> state = ''after''" by simp
      have b: "isl (strptime target_time_str)"
        and m: "msg = ''Invalid time format. Please use HH:MM AM/PM format (e.g., '7:00 PM').''"
        using r None s by (auto simp add: first_rejection_time_checks split: if_splits)
      show ?thesis using time_valid[OF v s, of backend target_time_str] time_try_bad_time[OF b] m
        by simp
    qed
  qed
  have 3: "first_rejection checks (a\<lparr>origin := ''JF''\<rparr>)
        = Some ''Origin and destination must be 3 characters.''"
    by (simp add: first_rejection_checks)
  have 4: "first_rejection checks (a\<lparr>departure_date := ''2025-1-5''\<rparr>)
          = Some ''Departure date must be in YYYY-MM-DD format.''"
    if "length (origin a) = 3 \<and> length (destination a) = 3"
    using that by (simp add: first_rejection_checks)
  show ?thesis using 1 2 3 4 by blast
qed

text \<open>
  Claim C6 at samples: a two-letter origin, a malformed date, an unknown seat, an unknown
  state and an unparseable target time.
\<close>

theorem validation_order_witness:
  "get_general_flights_info (returns [flight_a]) (jfk_fco\<lparr>origin := ''JF''\<rparr>) 40
     = Inr [''Origin and destination must be 3 characters.'']
   \<and> get_best_flights (returns [flight_a]) (jfk_fco\<lparr>departure_date := ''2025-1-5''\<rparr>)
     = Inr [''Departure date must be in YYYY-MM-DD format.'']
   \<and> get_cheapest_flights float_of_digits stable_sort (returns [flight_a]) (jfk_fco\<lparr>seat := ''coach''\<rparr>)
     = Inr [''Seat type must be either 'economy', 'premium-economy', 'business', or 'first'.'']
   \<and> get_time_filtered_flights (returns [flight_a]) ''around'' ''7:00 PM'' jfk_fco
     = Inr [''State must be either 'before' or 'after'.'']
   \<and> get_time_filtered_flights (returns [flight_a]) ''after'' ''19:00'' jfk_fco
     = Inr [''Invalid time format. Please use HH:MM AM/PM format (e.g., '7:00 PM').'']"
proof -
  have bad: "isl (strptime ''19:00'')"
    by (simp add: strptime_def strptime_match_def is_digit_def isspace_def match_I_def match_M_def)
  note w = validation_order[where backend="returns [flight_a]" and n_flights=40
      and py_float=float_of_digits and py_sorted=stable_sort]
  have 1: "get_general_flights_info (returns [flight_a]) (jfk_fco\<lparr>origin := ''JF''\<rparr>) 40
     = Inr [''Origin and destination must be 3 characters.'']"
    using w[where a="jfk_fco\<lparr>origin := ''JF''\<rparr>" and state="[]" and target_time_str="[]"
        and msg="''Origin and destination must be 3 characters.''"]
    by (simp add: first_rejection_checks)
  have 2: "get_best_flights (returns [flight_a]) (jfk_fco\<lparr>departure_date := ''2025-1-5''\<rparr>)
     = Inr [''Departure date must be in YYYY-MM-DD format.'']"
    using w[where a="jfk_fco\<lparr>departure_date := ''2025-1-5''\<rparr>" and state="[]" and target_time_str="[]"
        and msg="''Departure date must be in YYYY-MM-DD format.''"]
    by (simp add: first_rejection_checks jfk_fco_def)
  have 3: "get_cheapest_flights float_of_digits stable_sort (returns [flight_a]) (jfk_fco\<lparr>seat := ''coach''\<rparr>)
     = Inr [''Seat type must be either 'economy', 'premium-economy', 'business', or 'first'.'']"
    using w[where a="jfk_fco\<lparr>seat := ''coach''\<rparr>" and state="[]" and target_time_str="[]"
        and msg="''Seat type must be either 'economy', 'premium-economy', 'business', or 'first'.''"]
    by (simp add: first_rejection_checks jfk_fco_def)
  have 4: "get_time_filtered_flights (returns [flight_a]) ''around'' ''7:00 PM'' jfk_fco
     = Inr [''State must be either 'before' or 'after'.'']"
    using w[where a=jfk_fco and state="''around''" and target_time_str="''7:00 PM''"
        and msg="''State must be either 'before' or 'after'.''"]
    by (simp add: first_rejection_time_checks first_rejection_checks jfk_fco_def)
  have 5: "get_time_filtered_flights (returns [flight_a]) ''after'' ''19:00'' jfk_fco
     = Inr [''Invalid time format. Please use HH:MM AM/PM format (e.g., '7:00 PM').'']"
    using w[where a=jfk_fco and state="''after''" and target_time_str="''19:00''"
        and msg="''Invalid time format. Please use HH:MM AM/PM format (e.g., '7:00 PM').''"] bad
    by (simp add: first_rejection_time_checks first_rejection_checks jfk_fco_def)
  show ?thesis using 1 2 3 4 5 by simp
qed




text \<open>
  Claim C8 (general mode), as the code has it. For a validated query whose backend delivers a
  non-empty flight list, and a requested number of flights that is not negative,
  \<open>get_general_flights_info\<close> returns the header reporting the backend's current price
  followed by the lines of the first min(n_flights, length) records in the backend's order,
  when these records format.
\<close>

theorem general_first_n:
  assumes "valid_query a" and "backend a = Inr r" and "flights r = Some all_flights"
    and "all_flights \<noteq> []" and "0 \<le> n_flights"
    and "list_all (formats (origin a) (destination a))
           (take (nat (min n_flights (int (length all_flights)))) all_flights)"
  shows "get_general_flights_info backend a n_flights =
           Inr ((''The current overall flight prices for this route and time are: ''
                 @ current_price r @ ''.'')
                # map (line (origin a) (destination a))
                    (take (nat (min n_flights (int (length all_flights)))) all_flights))"
proof -
  have s: "slice_to all_flights (min n_flights (int (length all_flights)))
             = take (nat (min n_flights (int (length all_flights)))) all_flights"
    using assms(5) by (simp add: slice_to_def)
  show ?thesis
    using general_valid[OF assms(1)]
          general_try_flights[where backend=backend and a=a, OF assms(2-4)]
          format_loop_ok[OF assms(6), of "[]"]
    by (simp add: s bind_exn_def)
qed

text \<open>
  Claim C8 at a sample of three flights: two requested, and forty requested.
\<close>

theorem general_first_n_witness:
  "get_general_flights_info (returns [flight_a, flight_b, flight_c]) jfk_fco 2 =
     Inr [''The current overall flight prices for this route and time are: typical.'',
      projr (format_flight_info flight_a ''JFK'' ''FCO''),
      projr (format_flight_info flight_b ''JFK'' ''FCO'')]
   \<and> get_general_flights_info (returns [flight_a, flight_b, flight_c]) jfk_fco 40 =
     Inr [''The current overall flight prices for this route and time are: typical.'',
      projr (format_flight_info flight_a ''JFK'' ''FCO''),
      projr (format_flight_info flight_b ''JFK'' ''FCO''),
      projr (format_flight_info flight_c ''JFK'' ''FCO'')]"
proof -
  let ?fs = "[flight_a, flight_b, flight_c]"
  have r: "returns ?fs jfk_fco = Inr \<lparr>current_price = ''typical'', flights = Some ?fs\<rparr>"
    by (simp add: returns_def)
  have f: "flights \<lparr>current_price = ''typical'', flights = Some ?fs\<rparr> = Some ?fs" by simp
  have od: "origin jfk_fco = ''JFK''" "destination jfk_fco = ''FCO''" by (simp_all add: jfk_fco_def)
  have ne: "?fs \<noteq> []" by simp
  have t2: "take (nat (min 2 (int (length ?fs)))) ?fs = [flight_a, flight_b]"
    and t40: "take (nat (min 40 (int (length ?fs)))) ?fs = ?fs" by simp_all
  have ok2: "list_all (formats (origin jfk_fco) (destination jfk_fco)) (take (nat (min 2 (int (length ?fs)))) ?fs)"
    unfolding t2 od by (simp add: sample_formats)
  have ok40: "list_all (formats (origin jfk_fco) (destination jfk_fco)) (take (nat (min 40 (int (length ?fs)))) ?fs)"
    unfolding t40 od by (simp add: sample_formats)
  note w1 = general_first_n[where backend="returns ?fs" and a=jfk_fco and n_flights=2,
      OF valid_jfk_fco r f ne _ ok2, unfolded t2 od]
  note w2 = general_first_n[where backend="returns ?fs" and a=jfk_fco and n_flights=40,
      OF valid_jfk_fco r f ne _ ok40, unfolded t40 od]
  show ?thesis using w1 w2 by (simp add: line_def)
qed

text \<open>
  Claim C8 as stated fails on the empty list, where the no-flights message is returned, and
  for a negative request: with two flights and \<open>n_flights = -1\<close> the slice drops the last
  record, so one line follows the header.
\<close>

theorem general_first_n_fails:
  "get_general_flights_info (returns []) jfk_fco 5
     = Inr [''No flights found for the specified route and dates.'']
   \<and> get_general_flights_info (returns [flight_a, flight_b]) jfk_fco (- 1)
     = Inr [''The current overall flight prices for this route and time are: typical.'',
        line ''JFK'' ''FCO'' flight_a]
   \<and> get_general_flights_info (returns [flight_a, flight_b]) jfk_fco (- 1)
     \<noteq> Inr (''The current overall flight prices for this route and time are: typical.''
             # map (line ''JFK'' ''FCO'')
                 (take (nat (min (- 1) (int (length [flight_a, flight_b])))) [flight_a, flight_b]))"
proof -
  have od: "origin jfk_fco = ''JFK''" "destination jfk_fco = ''FCO''" by (simp_all add: jfk_fco_def)
  have e: "get_general_flights_info_try (returns []) jfk_fco 5
             = Inr [''No flights found for the specified route and dates.'']"
    by (simp add: get_general_flights_info_try_def returns_def bind_exn_def)
  have n: "get_general_flights_info_try (returns [flight_a, flight_b]) jfk_fco (- 1)
             = Inr [''The current overall flight prices for this route and time are: typical.'',
                    line ''JFK'' ''FCO'' flight_a]"
    by (simp add: get_general_flights_info_try_def returns_def bind_exn_def slice_to_def od
        line_a line_def)
  show ?thesis by (simp add: general_valid[OF valid_jfk_fco] e n)
qed

text \<open>
  Claim C9 (empty results). On a validated query, in each of the four tools (for the
  time-window tool: with a valid state and a target time that parses), a backend result
  with an empty flight list gives exactly the no-flights message, and a result without the
  flights field gives the no-flight-data message; neither is a message of the \<open>except\<close>
  clauses.
\<close>

theorem empty_result_messages:
  assumes "valid_query a" and "backend a = Inr r"
  shows "(flights r = Some [] \<longrightarrow>
            get_general_flights_info backend a n_flights
              = Inr [''No flights found for the specified route and dates.'']
          \<and> get_cheapest_flights py_float py_sorted backend a
              = Inr [''No flights found for the specified route and dates.'']
          \<and> get_best_flights backend a
              = Inr [''No flights found for the specified route and dates.'']
          \<and> ((state = ''before'' \<or> state = ''after'') \<and> \<not> isl (strptime target_time_str) \<longrightarrow>
               get_time_filtered_flights backend state target_time_str a
                 = Inr [''No flights found for the specified route and dates.'']))
       \<and> (flights r = None \<longrightarrow>
            get_general_flights_info backend a n_flights
              = Inr [''No flight data available for the specified route and dates.'']
          \<and> get_cheapest_flights py_float py_sorted backend a
              = Inr [''No flight data available for the specified route and dates.'']
          \<and> get_best_flights backend a
              = Inr [''No flight data available for the specified route and dates.'']
          \<and> ((state = ''before'' \<or> state = ''after'') \<and> \<not> isl (strptime target_time_str) \<longrightarrow>
               get_time_filtered_flights backend state target_time_str a
                 = Inr [''No flight data available for the specified route and dates.'']))
       \<and> except_clauses e \<noteq> Inr [''No flights found for the specified route and dates.'']
       \<and> except_clauses e \<noteq> Inr [''No flight data available for the specified route and dates.'']"
proof -
  have g: "flights r = Some [] \<Longrightarrow> get_general_flights_info_try backend a n_flights
             = Inr [''No flights found for the specified route and dates.'']"
          "flights r = None \<Longrightarrow> get_general_flights_info_try backend a n_flights
             = Inr [''No flight data available for the specified route and dates.'']"
    using assms(2) by (simp_all add: get_general_flights_info_try_def bind_exn_def)
  have c: "flights r = Some [] \<Longrightarrow> get_cheapest_flights_try py_float py_sorted backend a
             = Inr [''No flights found for the specified route and dates.'']"
          "flights r = None \<Longrightarrow> get_cheapest_flights_try py_float py_sorted backend a
             = Inr [''No flight data available for the specified route and dates.'']"
    using assms(2) by (simp_all add: get_cheapest_flights_try_def bind_exn_def)
  have b: "flights r = Some [] \<Longrightarrow> get_best_flights_try backend a
             = Inr [''No flights found for the specified route and dates.'']"
          "flights r = None \<Longrightarrow> get_best_flights_try backend a
             = Inr [''No flight data available for the specified route and dates.'']"
    using assms(2) by (simp_all add: get_best_flights_try_def bind_exn_def)
  have t: "flights r = Some [] \<Longrightarrow> get_time_filtered_flights_try backend state target_time_str a
             = Inr [''No flights found for the specified route and dates.'']"
          "flights r = None \<Longrightarrow> get_time_filtered_flights_try backend state target_time_str a
             = Inr [''No flight data available for the specified route and dates.'']"
    if ok: "\<not> isl (strptime target_time_str)"
  proof -
    obtain target where p: "strptime target_time_str = Inr target"
      using ok by (cases "strptime target_time_str") simp_all
    show "flights r = Some [] \<Longrightarrow> get_time_filtered_flights_try backend state target_time_str a
             = Inr [''No flights found for the specified route and dates.'']"
      using assms(2) p by (simp add: get_time_filtered_flights_try_def bind_exn_def)
    show "flights r = None \<Longrightarrow> get_time_filtered_flights_try backend state target_time_str a
             = Inr [''No flight data available for the specified route and dates.'']"
      using assms(2) p by (simp add: get_time_filtered_flights_try_def bind_exn_def)
  qed
  have G: "flights r = Some [] \<Longrightarrow> get_general_flights_info backend a n_flights
              = Inr [''No flights found for the specified route and dates.'']"
          "flights r = None \<Longrightarrow> get_general_flights_info backend a n_flights
              = Inr [''No flight data available for the specified route and dates.'']"
    using general_valid[OF assms(1), of backend n_flights] g by simp_all
  have C: "flights r = Some [] \<Longrightarrow> get_cheapest_flights py_float py_sorted backend a
              = Inr [''No flights found for the specified route and dates.'']"
          "flights r = None \<Longrightarrow> get_cheapest_flights py_float py_sorted backend a
              = Inr [''No flight data available for the specified route and dates.'']"
    using cheapest_valid[OF assms(1), of py_float py_sorted backend] c by simp_all
  have B: "flights r = Some [] \<Longrightarrow> get_best_flights backend a
              = Inr [''No flights found for the specified route and dates.'']"
          "flights r = None \<Longrightarrow> get_best_flights backend a
              = Inr [''No flight data available for the specified route and dates.'']"
    using best_valid[OF assms(1), of backend] b by simp_all
  have T: "flights r = Some [] \<Longrightarrow> get_time_filtered_flights backend state target_time_str a
              = Inr [''No flights found for the specified route and dates.'']"
          "flights r = None \<Longrightarrow> get_time_filtered_flights backend state target_time_str a
              = Inr [''No flight data available for the specified route and dates.'']"
    if "state = ''before'' \<or> state = ''after''" and "\<not> isl (strptime target_time_str)"
    using time_valid[OF assms(1) that(1), of backend target_time_str] t[OF that(2)] by simp_all
  show ?thesis using G C B T except_clauses_not_empty_result[of e] by blast
qed

text \<open>
  Claim C9 at samples: a backend delivering no flights, and one delivering no flights field.
\<close>

theorem empty_result_messages_witness:
  "get_general_flights_info (returns []) jfk_fco 40
     = Inr [''No flights found for the specified route and dates.'']
   \<and> get_best_flights (returns []) jfk_fco
     = Inr [''No flights found for the specified route and dates.'']
   \<and> get_cheapest_flights float_of_digits stable_sort (returns []) jfk_fco
     = Inr [''No flights found for the specified route and dates.'']
   \<and> get_time_filtered_flights (returns []) ''after'' ''7:00 PM'' jfk_fco
     = Inr [''No flights found for the specified route and dates.'']
   \<and> get_general_flights_info returns_no_flights_field jfk_fco 40
     = Inr [''No flight data available for the specified route and dates.'']
   \<and> get_time_filtered_flights returns_no_flights_field ''before'' ''7:00 PM'' jfk_fco
     = Inr [''No flight data available for the specified route and dates.'']"
proof -
  have r: "returns [] jfk_fco = Inr \<lparr>current_price = ''typical'', flights = Some []\<rparr>"
    by (simp add: returns_def)
  have n: "returns_no_flights_field jfk_fco = Inr \<lparr>current_price = ''typical'', flights = None\<rparr>"
    by (simp add: returns_no_flights_field_def)
  have t: "\<not> isl (strptime ''7:00 PM'')"
    by (simp add: strptime_def strptime_match_def is_digit_def isspace_def match_I_def match_M_def
        int_of_digits_def digit_val_def)
  note w1 = empty_result_messages[where backend="returns []" and a=jfk_fco and n_flights=40
      and state="''after''" and target_time_str="''7:00 PM''" and py_float=float_of_digits
      and py_sorted=stable_sort, OF valid_jfk_fco r]
  note w2 = empty_result_messages[where backend=returns_no_flights_field and a=jfk_fco and n_flights=40
      and state="''before''" and target_time_str="''7:00 PM''" and py_float=float_of_digits
      and py_sorted=stable_sort, OF valid_jfk_fco n]
  show ?thesis using w1 w2 t by simp
qed

text \<open>
  Claim C10 (n_flights is not validated). For a validated query whose backend delivers a
  non-empty flight list, a call with \<open>n_flights = 0\<close> returns exactly the header; and the
  rejection of a query that is not valid does not depend on \<open>n_flights\<close>.
\<close>

theorem general_zero_flights:
  "(valid_query a \<and> backend a = Inr r \<and> flights r = Some all_flights \<and> all_flights \<noteq> [] \<longrightarrow>
      get_general_flights_info backend a 0 =
        Inr [''The current overall flight prices for this route and time are: ''
         @ current_price r @ ''.''])
   \<and> (\<not> valid_query a \<longrightarrow>
      get_general_flights_info backend a n_flights = get_general_flights_info backend a 0)"
proof -
  have 1: "get_general_flights_info backend a 0 =
        Inr [''The current overall flight prices for this route and time are: ''
         @ current_price r @ ''.'']"
    if v: "valid_query a" and b: "backend a = Inr r" and f: "flights r = Some all_flights"
      and ne: "all_flights \<noteq> []"
    using general_valid[OF v] general_try_flights[where backend=backend and a=a, OF b f ne]
    by (simp add: slice_to_def bind_exn_def)
  have 2: "get_general_flights_info backend a n_flights = get_general_flights_info backend a 0"
    if "\<not> valid_query a"
    using that by (auto simp add: valid_query_def get_general_flights_info_def)
  show ?thesis using 1 2 by blast
qed

text \<open>
  Claim C10 at a sample of two flights.
\<close>

theorem general_zero_flights_witness:
  "get_general_flights_info (returns [flight_a, flight_b]) jfk_fco 0 =
     Inr [''The current overall flight prices for this route and time are: typical.'']"
proof -
  let ?fs = "[flight_a, flight_b]"
  have r: "returns ?fs jfk_fco = Inr \<lparr>current_price = ''typical'', flights = Some ?fs\<rparr>"
    by (simp add: returns_def)
  show ?thesis
    using general_zero_flights[where backend="returns ?fs" and a=jfk_fco
        and r="\<lparr>current_price = ''typical'', flights = Some ?fs\<rparr>" and all_flights="?fs"]
      valid_jfk_fco r
    by simp
qed

end
